theory Spec2Isabelle
  imports Main "HOL-Library.Word"
begin

unbundle bit_operations_syntax

section \<open>Data model of \<^verbatim>\<open>internal/web/logs.go\<close>\<close>

text \<open>
  The handlers of \<^verbatim>\<open>logs.go\<close> read a request, talk to the container registry and write
  to an \<^verbatim>\<open>http.ResponseWriter\<close>. The types of package \<^verbatim>\<open>docker\<close> are declared outside
  this file; the records below carry exactly the fields that \<^verbatim>\<open>logs.go\<close> reads or writes.
\<close>

subsection \<open>Containers and the filter closures\<close>

text \<open>A \<^verbatim>\<open>time.Time\<close>, as an offset from the zero value \<^verbatim>\<open>time.Time{}\<close>.\<close>

type_synonym Time = int

definition zero_Time :: Time where
  "zero_Time = 0"

text \<open>\<^verbatim>\<open>docker.Container\<close>: the fields read by the handlers. \<^verbatim>\<open>Labels\<close> is a Go map.\<close>

record Container =
  ID :: string
  Name :: string
  Host :: string
  State :: string
  Group :: string
  Labels :: "string \<rightharpoonup> string"
  Tty :: bool
  StartedAt :: Time

text \<open>Reading a Go \<^verbatim>\<open>map[string]string\<close> at a missing key yields the empty string.\<close>

definition label :: "Container \<Rightarrow> string \<Rightarrow> string" where
  "label c k = (case Labels c k of None \<Rightarrow> [] | Some v \<Rightarrow> v)"

text \<open>
  The request, reduced to what the handlers read: the route parameters of
  \<^verbatim>\<open>chi.URLParam\<close>, the query string as the ordered list of its key/value pairs, the
  \<^verbatim>\<open>Accept-Encoding\<close> header, and the value of \<^verbatim>\<open>hostKey(r)\<close> (a helper declared
  outside this file).
\<close>

record Request =
  URLParams :: "string \<rightharpoonup> string"
  Query :: "(string \<times> string) list"
  AcceptEncoding :: string
  hostKey :: string

text \<open>\<^verbatim>\<open>chi.URLParam(r, k)\<close>: the empty string when the route has no such parameter.\<close>

definition URLParam :: "Request \<Rightarrow> string \<Rightarrow> string" where
  "URLParam r k = (case URLParams r k of None \<Rightarrow> [] | Some v \<Rightarrow> v)"

text \<open>\<^verbatim>\<open>r.URL.Query().Has(k)\<close>, \<^verbatim>\<open>r.URL.Query().Get(k)\<close> and \<^verbatim>\<open>r.URL.Query()[k]\<close>.\<close>

definition Has :: "Request \<Rightarrow> string \<Rightarrow> bool" where
  "Has r k = (k \<in> set (map fst (Query r)))"

definition Values :: "Request \<Rightarrow> string \<Rightarrow> string list" where
  "Values r k = map snd (filter (\<lambda>kv. fst kv = k) (Query r))"

definition Get :: "Request \<Rightarrow> string \<Rightarrow> string" where
  "Get r k = (case Values r k of [] \<Rightarrow> [] | v # _ \<Rightarrow> v)"

type_synonym ContainerFilter = "Container \<Rightarrow> bool"

text \<open>The closure passed by \<^verbatim>\<open>streamContainerLogs\<close> (single id).\<close>

definition streamContainerLogs_filter :: "Request \<Rightarrow> ContainerFilter" where
  "streamContainerLogs_filter r =
     (let id = URLParam r ''id''
      in (\<lambda>container. ID container = id \<and> Host container = hostKey r))"

text \<open>
  The closure passed by \<^verbatim>\<open>streamLogsMerged\<close> (id set). \<^verbatim>\<open>ids\<close> is a
  \<^verbatim>\<open>map[string]bool\<close> filled with \<^verbatim>\<open>true\<close> for every value of the \<^verbatim>\<open>id\<close> query
  parameter; reading it at another key yields \<^verbatim>\<open>false\<close>.
\<close>

definition make_ids :: "string list \<Rightarrow> (string \<rightharpoonup> bool)" where
  "make_ids vs = fold (\<lambda>id m. m(id \<mapsto> True)) vs Map.empty"

definition ids_lookup :: "(string \<rightharpoonup> bool) \<Rightarrow> string \<Rightarrow> bool" where
  "ids_lookup ids k = (case ids k of None \<Rightarrow> False | Some b \<Rightarrow> b)"

definition streamLogsMerged_filter :: "Request \<Rightarrow> ContainerFilter" where
  "streamLogsMerged_filter r =
     (let ids = make_ids (Values r ''id'')
      in (\<lambda>container. ids_lookup ids (ID container) \<and> Host container = hostKey r))"

text \<open>The closures passed by \<^verbatim>\<open>streamServiceLogs\<close>, \<^verbatim>\<open>streamGroupedLogs\<close> and
  \<^verbatim>\<open>streamStackLogs\<close>.\<close>

definition streamServiceLogs_filter :: "Request \<Rightarrow> ContainerFilter" where
  "streamServiceLogs_filter r =
     (let service = URLParam r ''service''
      in (\<lambda>container. State container = ''running''
            \<and> label container ''com.docker.swarm.service.name'' = service))"

definition streamGroupedLogs_filter :: "Request \<Rightarrow> ContainerFilter" where
  "streamGroupedLogs_filter r =
     (let group = URLParam r ''group''
      in (\<lambda>container. State container = ''running'' \<and> Group container = group))"

definition streamStackLogs_filter :: "Request \<Rightarrow> ContainerFilter" where
  "streamStackLogs_filter r =
     (let stack = URLParam r ''stack''
      in (\<lambda>container. State container = ''running''
            \<and> label container ''com.docker.stack.namespace'' = stack))"

subsection \<open>Values of the standard library and of package \<^verbatim>\<open>docker\<close>\<close>

text \<open>
  A Go \<^verbatim>\<open>error\<close> value: its \<^verbatim>\<open>Error()\<close> text and the answers of
  \<^verbatim>\<open>errors.Is(err, io.EOF)\<close> and \<^verbatim>\<open>errors.Is(err, context.Canceled)\<close>.
\<close>

record go_error =
  Error :: string
  is_EOF :: bool
  is_Canceled :: bool

text \<open>
  Modelled from the spec: the stream-type selection \<^verbatim>\<open>docker.StdType\<close> with its flags
  \<^verbatim>\<open>docker.STDOUT\<close> and \<^verbatim>\<open>docker.STDERR\<close>, declared outside this file. The spec
  speaks of a selection of stdout and/or stderr that may be empty; the handlers combine the
  flags with \<^verbatim>\<open>|=\<close> and compare with \<open>0\<close>, so the flags are two distinct bits.
\<close>

type_synonym StdType = "64 word"

definition STDOUT :: StdType where
  "STDOUT = 1"

definition STDERR :: StdType where
  "STDERR = 2"

text \<open>
  \<^verbatim>\<open>docker.LogEvent\<close>: \<^verbatim>\<open>Timestamp\<close> is an \<^verbatim>\<open>int64\<close> and the only field read here;
  the other two fields stand for the rest of the event, which only the encoder reads.
\<close>

record LogEvent =
  Timestamp :: "64 word"
  ContainerID :: string
  Message :: string

text \<open>
  \<^verbatim>\<open>docker.ContainerEvent\<close>: the three fields set by \<^verbatim>\<open>logs.go\<close>. Its \<^verbatim>\<open>Name\<close> and
  \<^verbatim>\<open>Host\<close> are written \<open>EventName\<close> and \<open>EventHost\<close> here, since the container has
  fields of the same names.
\<close>

record ContainerEvent =
  ActorID :: string
  EventName :: string
  EventHost :: string

text \<open>
  A receive-only channel as its consumer sees it: the nil channel, or a channel that
  delivers the given values and then is closed (\<open>True\<close>) or stays open and silent
  (\<open>False\<close>). A \<^verbatim>\<open>for ... range\<close> over it ends only in the closed case.
\<close>

datatype 'a chan = Nil_chan | Delivers "'a list" bool

fun range_chan :: "'a chan \<Rightarrow> 'a list option" where
  "range_chan Nil_chan = None"
| "range_chan (Delivers xs closed) = (if closed then Some xs else None)"

text \<open>
  The service returned by \<^verbatim>\<open>FindContainer\<close>: its container and the three log sources.
  \<^verbatim>\<open>RawLogs\<close> yields an error or the bytes of the reader; \<^verbatim>\<open>LogsBetweenDates\<close> yields
  a channel and an error (both are returned, as in Go); \<^verbatim>\<open>StreamLogs\<close> sends events to
  the shared channel and then returns an error or nil.
\<close>

record ContainerService =
  Container :: Container
  RawLogs :: "Time \<Rightarrow> Time \<Rightarrow> StdType \<Rightarrow> go_error + string"
  LogsBetweenDates :: "Time \<Rightarrow> Time \<Rightarrow> StdType \<Rightarrow> LogEvent chan \<times> go_error option"
  StreamLogs :: "Time \<Rightarrow> StdType \<Rightarrow> LogEvent list \<times> go_error option"

text \<open>The fields of \<^verbatim>\<open>gzip.Writer\<close> set by \<^verbatim>\<open>downloadLogs\<close>.\<close>

record gz_header =
  gz_Name :: string
  gz_Comment :: string
  gz_ModTime :: Time

text \<open>
  Everything the handlers call outside this file: the registry
  (\<^verbatim>\<open>h.multiHostService\<close>), the clock and time formats, the JSON encoder, gzip,
  \<^verbatim>\<open>stdcopy.StdCopy\<close>, and the \<^verbatim>\<open>%v\<close> rendering of an error slice and of a
  container event in log lines.
\<close>

record Env =
  FindContainer :: "string \<Rightarrow> string \<Rightarrow> go_error + ContainerService"
  ListAllContainersFiltered :: "ContainerFilter \<Rightarrow> Container list \<times> go_error list"
  Now :: Time
  Format :: "Time \<Rightarrow> string"
  Parse :: "string \<Rightarrow> go_error + Time"
  Marshal_LogEvent :: "LogEvent \<Rightarrow> go_error + string"
  Marshal_ContainerEvent :: "ContainerEvent \<Rightarrow> go_error + string"
  gzip :: "gz_header \<Rightarrow> string \<Rightarrow> string"
  StdCopy :: "string \<Rightarrow> string"
  Sprint_errs :: "go_error list \<Rightarrow> string"
  Sprint_event :: "ContainerEvent \<Rightarrow> string"

subsection \<open>The response writer, the registry calls and the logger\<close>

datatype wire_op = Write string | Flush

datatype level = Debug | Warn | Err

datatype call =
    Call_FindContainer string string
  | Call_RawLogs Time Time StdType
  | Call_LogsBetweenDates Time Time StdType
  | Call_ListAllContainersFiltered
  | Call_SubscribeContainersStarted
  | Go_streamLogs Container

text \<open>
  The state a handler acts on: the response (header map, status line once written, the
  writes and flushes in order, and whether the writer implements \<^verbatim>\<open>http.Flusher\<close>),
  the calls made to the registry and the tasks started, and the lines given to the logger.
\<close>

record Exchange =
  Header :: "string \<rightharpoonup> string list"
  status :: "nat option"
  wire :: "wire_op list"
  flusher :: bool
  calls :: "call list"
  logged :: "(level \<times> string) list"

definition nl :: string where
  "nl = [CHR 0x0A]"

definition Header_Set :: "string \<Rightarrow> string \<Rightarrow> 'a Exchange_scheme \<Rightarrow> 'a Exchange_scheme" where
  "Header_Set k v x = x\<lparr>Header := (Header x)(k \<mapsto> [v])\<rparr>"

definition Header_Add :: "string \<Rightarrow> string \<Rightarrow> 'a Exchange_scheme \<Rightarrow> 'a Exchange_scheme" where
  "Header_Add k v x =
     x\<lparr>Header := (Header x)(k \<mapsto> (case Header x k of None \<Rightarrow> [] | Some vs \<Rightarrow> vs) @ [v])\<rparr>"

definition Header_Del :: "string \<Rightarrow> 'a Exchange_scheme \<Rightarrow> 'a Exchange_scheme" where
  "Header_Del k x = x\<lparr>Header := (Header x)(k := None)\<rparr>"

text \<open>\<^verbatim>\<open>w.WriteHeader(code)\<close>: only the first status counts.\<close>

definition WriteHeader :: "nat \<Rightarrow> 'a Exchange_scheme \<Rightarrow> 'a Exchange_scheme" where
  "WriteHeader code x = (if status x = None then x\<lparr>status := Some code\<rparr> else x)"

text \<open>A write to \<^verbatim>\<open>w\<close> (\<^verbatim>\<open>fmt.Fprintf\<close> and friends); the first one implies status 200.\<close>

definition Fprint :: "string \<Rightarrow> 'a Exchange_scheme \<Rightarrow> 'a Exchange_scheme" where
  "Fprint s x = (WriteHeader 200 x)\<lparr>wire := wire x @ [Write s]\<rparr>"

definition do_Flush :: "'a Exchange_scheme \<Rightarrow> 'a Exchange_scheme" where
  "do_Flush x = (WriteHeader 200 x)\<lparr>wire := wire x @ [Flush]\<rparr>"

text \<open>\<^verbatim>\<open>http.Error(w, msg, code)\<close> of the standard library.\<close>

definition http_Error :: "string \<Rightarrow> nat \<Rightarrow> 'a Exchange_scheme \<Rightarrow> 'a Exchange_scheme" where
  "http_Error msg code x =
     Fprint (msg @ nl)
       (WriteHeader code
         (Header_Set ''X-Content-Type-Options'' ''nosniff''
           (Header_Set ''Content-Type'' ''text/plain; charset=utf-8''
             (Header_Del ''Content-Length'' x))))"

definition StatusBadRequest :: nat where "StatusBadRequest = 400"
definition StatusNotFound :: nat where "StatusNotFound = 404"
definition StatusInternalServerError :: nat where "StatusInternalServerError = 500"

definition log_line :: "level \<Rightarrow> string \<Rightarrow> 'a Exchange_scheme \<Rightarrow> 'a Exchange_scheme" where
  "log_line l s x = x\<lparr>logged := logged x @ [(l, s)]\<rparr>"

definition record_call :: "call \<Rightarrow> 'a Exchange_scheme \<Rightarrow> 'a Exchange_scheme" where
  "record_call c x = x\<lparr>calls := calls x @ [c]\<rparr>"

text \<open>The exchange a handler starts from: nothing written, nothing called.\<close>

definition fresh :: "bool \<Rightarrow> Exchange" where
  "fresh fl = \<lparr>Header = Map.empty, status = None, wire = [], flusher = fl,
               calls = [], logged = []\<rparr>"

text \<open>The query flags, as the three handlers compute them.\<close>

definition stdTypes_of :: "Request \<Rightarrow> StdType" where
  "stdTypes_of r =
     (let stdTypes = 0;
          stdTypes = (if Has r ''stdout'' then stdTypes OR STDOUT else stdTypes);
          stdTypes = (if Has r ''stderr'' then stdTypes OR STDERR else stdTypes)
      in stdTypes)"

text \<open>\<^verbatim>\<open>strings.Contains(s, sub)\<close>.\<close>

fun Contains :: "string \<Rightarrow> string \<Rightarrow> bool" where
  "Contains [] sub = (sub = [])"
| "Contains (c # s) sub = (take (length sub) (c # s) = sub \<or> Contains s sub)"

subsection \<open>\<^verbatim>\<open>downloadLogs\<close>\<close>

text \<open>
  The handler in source order: container lookup, the download headers, the stream-type
  check, then the gzip writer. The deferred \<^verbatim>\<open>zw.Close()\<close> runs on both exits taken
  after \<^verbatim>\<open>zw\<close> exists; it writes the gzip stream of what was copied (of nothing, when
  \<^verbatim>\<open>RawLogs\<close> failed).
\<close>

definition downloadLogs :: "Env \<Rightarrow> Request \<Rightarrow> Exchange \<Rightarrow> Exchange" where
  "downloadLogs h r x0 =
     (let id = URLParam r ''id'';
          x1 = record_call (Call_FindContainer (hostKey r) id) x0
      in case FindContainer h (hostKey r) id of
           Inl err \<Rightarrow> http_Error (Error err) StatusBadRequest x1
         | Inr containerService \<Rightarrow>
            (let now = Now h;
                 nowFmt = Format h now;
                 cname = Name (Container containerService);
                 contentDisposition =
                   ''attachment; filename='' @ cname @ ''-'' @ nowFmt @ ''.log'';
                 x2 = (if Contains (AcceptEncoding r) ''gzip''
                       then Header_Set ''Content-Type'' ''application/text''
                              (Header_Set ''Content-Encoding'' ''gzip''
                                (Header_Set ''Content-Disposition'' contentDisposition x1))
                       else Header_Set ''Content-Type'' ''application/gzip''
                              (Header_Set ''Content-Disposition''
                                 (contentDisposition @ ''.gz'') x1));
                 stdTypes = stdTypes_of r
             in if stdTypes = 0
                then http_Error ''stdout or stderr is required'' StatusBadRequest x2
                else
                 (let zw = \<lparr>gz_Name = cname @ ''-'' @ nowFmt @ ''.log'',
                            gz_Comment = ''Logs generated by Dozzle'',
                            gz_ModTime = now\<rparr>;
                      x3 = record_call (Call_RawLogs zero_Time now stdTypes) x2
                  in case RawLogs containerService zero_Time now stdTypes of
                       Inl err \<Rightarrow>
                         Fprint (gzip h zw [])
                           (http_Error (Error err) StatusInternalServerError x3)
                     | Inr reader \<Rightarrow>
                         (if Tty (Container containerService)
                          then Fprint (gzip h zw reader) x3
                          else Fprint (gzip h zw (StdCopy h reader)) x3))))"

subsection \<open>The ring buffer\<close>

text \<open>
  Modelled from the spec: \<^verbatim>\<open>utils.RingBuffer\<close>, which is declared outside this file.
  The spec's words: fixed capacity \<open>C\<close>; \<^verbatim>\<open>push\<close> appends, and once \<open>C\<close> items are
  held each further push evicts exactly the single oldest held item; the snapshot returns
  the held items oldest-first, without mutation.
\<close>

record 'a RingBuffer =
  Size :: nat
  held :: "'a list"

definition NewRingBuffer :: "nat \<Rightarrow> 'a RingBuffer" where
  "NewRingBuffer C = \<lparr>Size = C, held = []\<rparr>"

definition Push :: "'a \<Rightarrow> 'a RingBuffer \<Rightarrow> 'a RingBuffer" where
  "Push item b =
     (if length (held b) < Size b then b\<lparr>held := held b @ [item]\<rparr>
      else b\<lparr>held := drop 1 (held b) @ [item]\<rparr>)"

definition Data :: "'a RingBuffer \<Rightarrow> 'a list" where
  "Data b = held b"

subsection \<open>\<^verbatim>\<open>fetchLogsBetweenDates\<close>\<close>

text \<open>\<^verbatim>\<open>time.Parse\<close> returns the zero time together with its error; the handler drops
  the error (\<^verbatim>\<open>from, _ := ...\<close>).\<close>

definition parse_or_zero :: "Env \<Rightarrow> string \<Rightarrow> Time" where
  "parse_or_zero h s = (case Parse h s of Inl _ \<Rightarrow> zero_Time | Inr t \<Rightarrow> t)"

text \<open>
  One round of the final loop: \<^verbatim>\<open>encoder.Encode(event)\<close> writes the JSON text and a
  newline, or returns an error and writes nothing; the error is logged and the loop goes on.
\<close>

definition encode_event :: "Env \<Rightarrow> LogEvent \<Rightarrow> 'a Exchange_scheme \<Rightarrow> 'a Exchange_scheme" where
  "encode_event h event x =
     (case Marshal_LogEvent h event of
        Inl err \<Rightarrow> log_line Err (''json encoding error while streaming '' @ Error err) x
      | Inr buf \<Rightarrow> Fprint (buf @ nl) x)"

text \<open>
  The handler. The result is \<open>None\<close> when the \<^verbatim>\<open>range\<close> over the events channel never
  ends (a nil channel, or one that is never closed): the handler then does not return.
\<close>

definition fetchLogsBetweenDates :: "Env \<Rightarrow> Request \<Rightarrow> Exchange \<Rightarrow> Exchange option" where
  "fetchLogsBetweenDates h r x0 =
     (let x1 = Header_Set ''Content-Type'' ''application/x-jsonl; charset=UTF-8'' x0;
          from = parse_or_zero h (Get r ''from'');
          to = parse_or_zero h (Get r ''to'');
          id = URLParam r ''id'';
          stdTypes = stdTypes_of r
      in if stdTypes = 0
         then Some (http_Error ''stdout or stderr is required'' StatusBadRequest x1)
         else
          (let x2 = record_call (Call_FindContainer (hostKey r) id) x1
           in case FindContainer h (hostKey r) id of
                Inl err \<Rightarrow> Some (http_Error (Error err) StatusNotFound x2)
              | Inr containerService \<Rightarrow>
                 (let x3 = record_call (Call_LogsBetweenDates from to stdTypes) x2;
                      (events, err) = LogsBetweenDates containerService from to stdTypes;
                      x4 = (case err of
                              None \<Rightarrow> x3
                            | Some e \<Rightarrow>
                                log_line Err (''error while streaming logs '' @ Error e) x3)
                  in case range_chan events of
                       None \<Rightarrow> None
                     | Some evs \<Rightarrow>
                        (let buffer = fold Push evs (NewRingBuffer 500)
                         in Some (fold (encode_event h) (Data buffer) x4)))))"

subsection \<open>\<^verbatim>\<open>streamLogsForContainers\<close>: the frames\<close>

text \<open>The verb \<^verbatim>\<open>%d\<close> on an \<^verbatim>\<open>int64\<close>: signed decimal.\<close>

definition digit :: "nat \<Rightarrow> char" where
  "digit d = ''0123456789'' ! d"

fun show_nat :: "nat \<Rightarrow> string" where
  "show_nat n =
     (if n < 10 then [digit n]
      else show_nat (n div 10) @ [digit (n mod 10)])"

definition show_int :: "int \<Rightarrow> string" where
  "show_int i = (if i < 0 then ''-'' @ show_nat (nat (- i)) else show_nat (nat i))"

text \<open>\<^verbatim>\<open>case event := <-logs\<close> (lines 235-245).\<close>

definition on_logs :: "Env \<Rightarrow> LogEvent \<Rightarrow> 'a Exchange_scheme \<Rightarrow> 'a Exchange_scheme" where
  "on_logs h event x =
     (let x1 = (case Marshal_LogEvent h event of
                  Inl err \<Rightarrow>
                    log_line Err (''json encoding error while streaming '' @ Error err) x
                | Inr buf \<Rightarrow> Fprint (''data: '' @ buf @ nl) x);
          x2 = (if 0 <s Timestamp event
                then Fprint (''id: '' @ show_int (sint (Timestamp event)) @ nl) x1
                else x1);
          x3 = Fprint nl x2
      in do_Flush x3)"

text \<open>\<^verbatim>\<open>case <-ticker.C\<close> (lines 246-248).\<close>

definition on_ticker :: "'a Exchange_scheme \<Rightarrow> 'a Exchange_scheme" where
  "on_ticker x = do_Flush (Fprint ('':ping '' @ nl @ nl) x)"

text \<open>\<^verbatim>\<open>case event := <-events\<close> (lines 253-260).\<close>

definition on_events :: "Env \<Rightarrow> ContainerEvent \<Rightarrow> 'a Exchange_scheme \<Rightarrow> 'a Exchange_scheme" where
  "on_events h event x =
     (let x1 = log_line Debug (''received container event '' @ Sprint_event h event) x
      in case Marshal_ContainerEvent h event of
           Inl err \<Rightarrow>
             log_line Err (''json encoding error while streaming '' @ Error err) x1
         | Inr buf \<Rightarrow>
             do_Flush
               (Fprint (''event: container-event'' @ nl @ ''data: '' @ buf @ nl @ nl) x1))"

subsection \<open>\<^verbatim>\<open>streamLogsForContainers\<close>: the producer task \<^verbatim>\<open>streamLogs\<close>\<close>

text \<open>
  What one producer task does, in order: a registry call, sends on the channel
  \<^verbatim>\<open>logs\<close> (made inside \<^verbatim>\<open>StreamLogs\<close>), a send on the channel \<^verbatim>\<open>events\<close>, log
  lines. The task is the closure of lines 208-223; it has no loop of its own, so the list
  is everything it ever does.
\<close>

datatype p_action =
    P_call call
  | Send_logs LogEvent
  | Send_events ContainerEvent
  | P_log level string

definition container_stopped :: "Container \<Rightarrow> ContainerEvent" where
  "container_stopped container =
     \<lparr>ActorID = ID container, EventName = ''container-stopped'',
      EventHost = Host container\<rparr>"

definition container_started :: "Container \<Rightarrow> ContainerEvent" where
  "container_started container =
     \<lparr>ActorID = ID container, EventName = ''container-started'',
      EventHost = Host container\<rparr>"

definition streamLogs :: "Env \<Rightarrow> StdType \<Rightarrow> Container \<Rightarrow> p_action list" where
  "streamLogs h stdTypes container =
     P_call (Call_FindContainer (Host container) (ID container)) #
     (case FindContainer h (Host container) (ID container) of
        Inl err \<Rightarrow> [P_log Err (''error while finding container '' @ Error err)]
      | Inr containerService \<Rightarrow>
         (let (sent, err) = StreamLogs containerService (StartedAt container) stdTypes
          in map Send_logs sent @
             (case err of
                None \<Rightarrow> []
              | Some e \<Rightarrow>
                 (if is_EOF e
                  then [P_log Debug (''stream closed for container '' @ Name container),
                        Send_events (container_stopped container)]
                  else if \<not> is_Canceled e
                  then [P_log Err (''unknown error while streaming '' @ Error e)]
                  else []))))"

subsection \<open>\<^verbatim>\<open>streamLogsForContainers\<close>: set-up and merge loop\<close>

text \<open>
  A streaming session at the label \<^verbatim>\<open>loop\<close>: the exchange, the buffered channel
  \<^verbatim>\<open>events\<close> (made with capacity 1), the started producer tasks with what each has
  still to do, and where the handler's own task stands: \<open>exited\<close> after \<^verbatim>\<open>break loop\<close>,
  \<open>blocked\<close> when it waits in the send of line 250 on a full channel that only it drains.
  The channels \<^verbatim>\<open>logs\<close> and \<^verbatim>\<open>newContainers\<close> are unbuffered, so they hold nothing
  between steps.
\<close>

record Session = Exchange +
  events_ch :: "ContainerEvent list"
  tasks :: "p_action list list"
  exited :: bool
  blocked :: bool

definition events_cap :: nat where
  "events_cap = 1"

text \<open>
  Lines 172-230. \<open>Inl\<close> is the exchange of a handler that returned before the loop,
  \<open>Inr\<close> the session that enters it.
\<close>

definition before_loop :: "Env \<Rightarrow> Request \<Rightarrow> ContainerFilter \<Rightarrow> Exchange \<Rightarrow> Exchange + Session" where
  "before_loop h r filter_fn x0 =
     (let stdTypes = stdTypes_of r
      in if stdTypes = 0
         then Inl (http_Error ''stdout or stderr is required'' StatusBadRequest x0)
         else if \<not> flusher x0
         then Inl (http_Error ''Streaming unsupported!'' StatusInternalServerError x0)
         else
          (let x1 = Header_Set ''X-Accel-Buffering'' ''no''
                      (Header_Set ''Connection'' ''keep-alive''
                        (Header_Add ''Cache-Control'' ''no-cache''
                          (Header_Set ''Cache-Control'' ''no-transform''
                            (Header_Set ''Content-Type'' ''text/event-stream'' x0))));
               x2 = record_call Call_ListAllContainersFiltered x1;
               (existingContainers, errs) = ListAllContainersFiltered h filter_fn;
               x3 = (if length errs > 0
                     then log_line Warn
                            (''error while listing containers '' @ Sprint_errs h errs) x2
                     else x2);
               x4 = fold (\<lambda>container. record_call (Go_streamLogs container))
                      existingContainers x3;
               x5 = record_call Call_SubscribeContainersStarted x4
           in Inr \<lparr>Header = Header x5, status = status x5, wire = wire x5,
                   flusher = flusher x5, calls = calls x5, logged = logged x5,
                   events_ch = [],
                   tasks = map (streamLogs h stdTypes) existingContainers,
                   exited = False, blocked = False\<rparr>))"

text \<open>
  What happens next in a session. The first five are the cases of the \<^verbatim>\<open>select\<close>
  (\<open>Recv_logs i\<close> receives the event that task \<open>i\<close> is sending on \<^verbatim>\<open>logs\<close>); \<open>Task i\<close>
  lets producer task \<open>i\<close> take its next action other than a send on \<^verbatim>\<open>logs\<close>.
\<close>

datatype sel =
    Recv_logs nat
  | Recv_ticker
  | Recv_newContainers Container
  | Recv_events
  | Ctx_Done
  | Task nat

definition loop_ready :: "Session \<Rightarrow> bool" where
  "loop_ready s = (\<not> exited s \<and> \<not> blocked s)"

text \<open>
  One step; \<open>None\<close> when the step cannot happen in this state (the channel operation
  it needs would block, or the handler's task is no longer in the \<^verbatim>\<open>select\<close>).
  The subscription hands over only containers that the filter accepts.
\<close>

fun step :: "Env \<Rightarrow> StdType \<Rightarrow> ContainerFilter \<Rightarrow> sel \<Rightarrow> Session \<Rightarrow> Session option" where
  "step h stdTypes filter_fn (Recv_logs i) s =
     (if loop_ready s \<and> i < length (tasks s)
      then (case tasks s ! i of
              Send_logs event # rest \<Rightarrow>
                Some (on_logs h event (s\<lparr>tasks := (tasks s)[i := rest]\<rparr>))
            | _ \<Rightarrow> None)
      else None)"
| "step h stdTypes filter_fn Recv_ticker s =
     (if loop_ready s then Some (on_ticker s) else None)"
| "step h stdTypes filter_fn (Recv_newContainers container) s =
     (if loop_ready s \<and> filter_fn container
      then (if length (events_ch s) < events_cap
            then Some (record_call (Go_streamLogs container)
                   (s\<lparr>events_ch := events_ch s @ [container_started container],
                      tasks := tasks s @ [streamLogs h stdTypes container]\<rparr>))
            else Some (s\<lparr>blocked := True\<rparr>))
      else None)"
| "step h stdTypes filter_fn Recv_events s =
     (if loop_ready s
      then (case events_ch s of
              [] \<Rightarrow> None
            | event # rest \<Rightarrow> Some (on_events h event (s\<lparr>events_ch := rest\<rparr>)))
      else None)"
| "step h stdTypes filter_fn Ctx_Done s =
     (if loop_ready s
      then Some (log_line Debug ''context cancelled'' (s\<lparr>exited := True\<rparr>))
      else None)"
| "step h stdTypes filter_fn (Task i) s =
     (if i < length (tasks s)
      then (case tasks s ! i of
              [] \<Rightarrow> None
            | Send_logs event # rest \<Rightarrow> None
            | P_call c # rest \<Rightarrow> Some (record_call c (s\<lparr>tasks := (tasks s)[i := rest]\<rparr>))
            | P_log l m # rest \<Rightarrow> Some (log_line l m (s\<lparr>tasks := (tasks s)[i := rest]\<rparr>))
            | Send_events event # rest \<Rightarrow>
                (if length (events_ch s) < events_cap
                 then Some (s\<lparr>events_ch := events_ch s @ [event],
                              tasks := (tasks s)[i := rest]\<rparr>)
                 else None))
      else None)"

fun run :: "Env \<Rightarrow> StdType \<Rightarrow> ContainerFilter \<Rightarrow> sel list \<Rightarrow> Session \<Rightarrow> Session option" where
  "run h stdTypes filter_fn [] s = Some s"
| "run h stdTypes filter_fn (a # as) s =
     (case step h stdTypes filter_fn a s of
        None \<Rightarrow> None
      | Some s' \<Rightarrow> run h stdTypes filter_fn as s')"

text \<open>
  The handler along one schedule of its \<^verbatim>\<open>select\<close> and of its producers. The block
  after the loop only reports memory statistics to the debug log and is left out.
\<close>

definition streamLogsForContainers ::
  "Env \<Rightarrow> Request \<Rightarrow> ContainerFilter \<Rightarrow> sel list \<Rightarrow> Exchange \<Rightarrow> Exchange + Session option" where
  "streamLogsForContainers h r filter_fn sched x0 =
     (case before_loop h r filter_fn x0 of
        Inl x \<Rightarrow> Inl x
      | Inr s \<Rightarrow> Inr (run h (stdTypes_of r) filter_fn sched s))"

text \<open>The five streaming handlers.\<close>

definition streamContainerLogs ::
  "Env \<Rightarrow> Request \<Rightarrow> sel list \<Rightarrow> Exchange \<Rightarrow> Exchange + Session option" where
  "streamContainerLogs h r = streamLogsForContainers h r (streamContainerLogs_filter r)"

definition streamLogsMerged ::
  "Env \<Rightarrow> Request \<Rightarrow> sel list \<Rightarrow> Exchange \<Rightarrow> Exchange + Session option" where
  "streamLogsMerged h r sched x0 =
     (if \<not> Has r ''id''
      then Inl (http_Error ''ids query parameter is required'' StatusBadRequest x0)
      else streamLogsForContainers h r (streamLogsMerged_filter r) sched x0)"


definition streamGroupedLogs ::
  "Env \<Rightarrow> Request \<Rightarrow> sel list \<Rightarrow> Exchange \<Rightarrow> Exchange + Session option" where
  "streamGroupedLogs h r = streamLogsForContainers h r (streamGroupedLogs_filter r)"

definition streamStackLogs ::
  "Env \<Rightarrow> Request \<Rightarrow> sel list \<Rightarrow> Exchange \<Rightarrow> Exchange + Session option" where
  "streamStackLogs h r = streamLogsForContainers h r (streamStackLogs_filter r)"

subsection \<open>The words of the specification\<close>

text \<open>The \<open>n\<close> most recent items of a sequence that is ordered oldest first.\<close>

definition most_recent :: "nat \<Rightarrow> 'a list \<Rightarrow> 'a list" where
  "most_recent n xs = drop (length xs - n) xs"

text \<open>
  Newline-delimited JSON of a sequence of events, one write per event, leaving out the
  events that the encoder rejects.
\<close>

definition ndjson :: "Env \<Rightarrow> LogEvent list \<Rightarrow> wire_op list" where
  "ndjson h evs =
     concat (map (\<lambda>e. case Marshal_LogEvent h e of
                          Inl err \<Rightarrow> []
                        | Inr buf \<Rightarrow> [Write (buf @ nl)]) evs)"

text \<open>The log lines for the events that the encoder rejects.\<close>

definition encoding_errors :: "Env \<Rightarrow> LogEvent list \<Rightarrow> (level \<times> string) list" where
  "encoding_errors h evs =
     concat (map (\<lambda>e. case Marshal_LogEvent h e of
                          Inl err \<Rightarrow>
                            [(Err, ''json encoding error while streaming '' @ Error err)]
                        | Inr buf \<Rightarrow> []) evs)"

text \<open>The log-event frame of the wire format, for an event with JSON text \<open>buf\<close>.\<close>

definition log_frame :: "string \<Rightarrow> LogEvent \<Rightarrow> wire_op list" where
  "log_frame buf event =
     [Write (''data: '' @ buf @ nl)]
     @ (if 0 <s Timestamp event
        then [Write (''id: '' @ show_int (sint (Timestamp event)) @ nl)]
        else [])
     @ [Write nl]"


text \<open>The lifecycle events that a producer task sends, in order.\<close>

fun lifecycle_sends :: "p_action list \<Rightarrow> ContainerEvent list" where
  "lifecycle_sends [] = []"
| "lifecycle_sends (Send_events ev # as) = ev # lifecycle_sends as"
| "lifecycle_sends (a # as) = lifecycle_sends as"

subsection \<open>Example values\<close>

definition ex_exited :: Container where
  "ex_exited = \<lparr>ID = ''c1'', Name = ''web'', Host = ''h1'', State = ''exited'',
                Group = ''shop'', Labels = Map.empty, Tty = False, StartedAt = 7\<rparr>"

definition ex_running :: Container where
  "ex_running = \<lparr>ID = ''c2'', Name = ''db'', Host = ''h1'', State = ''running'',
                 Group = ''shop'',
                 Labels = [''com.docker.swarm.service.name'' \<mapsto> ''store'',
                           ''com.docker.stack.namespace'' \<mapsto> ''prod''],
                 Tty = False, StartedAt = 9\<rparr>"

text \<open>A request for container \<open>c1\<close> on host \<open>h1\<close> with the given query string.\<close>

definition ex_request :: "(string \<times> string) list \<Rightarrow> Request" where
  "ex_request q = \<lparr>URLParams = [''id'' \<mapsto> ''c1'', ''service'' \<mapsto> ''store'',
                                 ''group'' \<mapsto> ''shop'', ''stack'' \<mapsto> ''prod''],
                    Query = q, AcceptEncoding = ''gzip, deflate'', hostKey = ''h1''\<rparr>"

definition ex_error :: "string \<Rightarrow> go_error" where
  "ex_error msg = \<lparr>Error = msg, is_EOF = False, is_Canceled = False\<rparr>"

definition ex_EOF :: go_error where
  "ex_EOF = \<lparr>Error = ''EOF'', is_EOF = True, is_Canceled = False\<rparr>"

definition ex_event1 :: LogEvent where
  "ex_event1 = \<lparr>Timestamp = 1700000000, ContainerID = ''c1'', Message = ''hello''\<rparr>"

definition ex_event2 :: LogEvent where
  "ex_event2 = \<lparr>Timestamp = 0, ContainerID = ''c1'', Message = ''bye''\<rparr>"

text \<open>The answer of a range query that delivers two events and closes its channel.\<close>

definition ex_range :: "LogEvent chan \<times> go_error option" where
  "ex_range = (Delivers [ex_event1, ex_event2] True, None)"

text \<open>
  A service for a container: raw bytes, a range query with the given answer, and a live
  stream that sends two events of the container and then returns the given error.
\<close>

definition ex_service ::
  "Container \<Rightarrow> LogEvent chan \<times> go_error option \<Rightarrow> go_error option \<Rightarrow> ContainerService" where
  "ex_service c answer ending =
     \<lparr>Container = c,
      RawLogs = (\<lambda>from to stdTypes. Inr ''raw bytes''),
      LogsBetweenDates = (\<lambda>from to stdTypes. answer),
      StreamLogs = (\<lambda>since stdTypes.
        ([ex_event1\<lparr>ContainerID := ID c\<rparr>, ex_event2\<lparr>ContainerID := ID c\<rparr>], ending))\<rparr>"

text \<open>
  A registry that knows \<open>c1\<close> and \<open>c2\<close> on host \<open>h1\<close> and lists \<open>c1\<close> as existing
  (\<open>c2\<close> is the container that starts later); a JSON encoder that stands for the text
  of an event by its container and message, and for a container event by its name and
  actor; a clock that parses one timestamp.
\<close>

definition ex_env :: "LogEvent chan \<times> go_error option \<Rightarrow> go_error option \<Rightarrow> Env" where
  "ex_env answer ending =
     \<lparr>FindContainer = (\<lambda>host id.
         if host = ''h1'' \<and> id = ''c1'' then Inr (ex_service ex_exited answer ending)
         else if host = ''h1'' \<and> id = ''c2'' then Inr (ex_service ex_running answer ending)
         else Inl (ex_error ''container not found'')),
      ListAllContainersFiltered = (\<lambda>f. (filter f [ex_exited], [])),
      Now = 100,
      Format = (\<lambda>t. ''2024-05-01T10-00-00''),
      Parse = (\<lambda>s. if s = ''2024-05-01T10:00:00Z'' then Inr 100
                    else Inl (ex_error ''cannot parse'')),
      Marshal_LogEvent = (\<lambda>e. Inr (ContainerID e @ '': '' @ Message e)),
      Marshal_ContainerEvent = (\<lambda>e. Inr (EventName e @ '' '' @ ActorID e)),
      gzip = (\<lambda>hd data. ''gz:'' @ data),
      StdCopy = (\<lambda>data. data),
      Sprint_errs = (\<lambda>errs. concat (map Error errs)),
      Sprint_event = (\<lambda>e. EventName e)\<rparr>"

text \<open>A session in its \<^verbatim>\<open>select\<close> with the given producer tasks and nothing written.\<close>

definition ex_session :: "p_action list list \<Rightarrow> Session" where
  "ex_session ts = \<lparr>Header = Map.empty, status = None, wire = [], flusher = True,
      calls = [], logged = [], events_ch = [], tasks = ts, exited = False,
      blocked = False\<rparr>"

text \<open>An encoder that rejects every log event.\<close>

definition ex_env_no_json :: Env where
  "ex_env_no_json =
     (ex_env ex_range None)\<lparr>Marshal_LogEvent := (\<lambda>e. Inl (ex_error ''unsupported value''))\<rparr>"

text \<open>
  Answers of a range query: 600 events of which the last 500 carry the message
  \<open>hello\<close>; a failure with a nil channel; a failure after one delivered event.
\<close>

definition ex_busy :: "LogEvent chan \<times> go_error option" where
  "ex_busy = (Delivers (replicate 100 ex_event2 @ replicate 500 ex_event1) True, None)"

definition ex_failed_nil :: "LogEvent chan \<times> go_error option" where
  "ex_failed_nil = (Nil_chan, Some (ex_error ''connection refused''))"

definition ex_failed_late :: "LogEvent chan \<times> go_error option" where
  "ex_failed_late = (Delivers [ex_event1] True, Some (ex_error ''connection reset''))"

text \<open>An error that is neither end-of-stream nor cancellation.\<close>

definition ex_broken :: go_error where
  "ex_broken = ex_error ''unexpected frame header''"

text \<open>
  A schedule for a session on the ids \<open>c1\<close> and \<open>c2\<close>: the producer of \<open>c1\<close> delivers its
  two log events and reaches the end of its stream; \<open>c2\<close> starts; \<open>c1\<close> is started again
  before the loop has taken the first lifecycle event out of \<^verbatim>\<open>events\<close>.
\<close>

definition ex_restart :: "sel list" where
  "ex_restart =
     [Task 0, Recv_logs 0, Recv_logs 0, Task 0,
      Recv_newContainers ex_running,
      Recv_newContainers (ex_exited\<lparr>State := ''running''\<rparr>)]"

section \<open>Container filters\<close>

lemma ids_lookup_make_ids: "ids_lookup (make_ids vs) k = (k \<in> set vs)"
proof -
  have "\<And>m. ids_lookup (fold (\<lambda>id m. m(id \<mapsto> True)) vs m) k
      = (k \<in> set vs \<or> ids_lookup m k)"
    by (induction vs) (auto simp: ids_lookup_def)
  then show ?thesis by (simp add: make_ids_def ids_lookup_def)
qed

text \<open>
  Claim C8, as stated, fails for the id-set variant: the closure of
  \<^verbatim>\<open>streamLogsMerged\<close> accepts the exited container \<open>c1\<close> on host \<open>h1\<close> when the
  query names \<open>c1\<close>.
\<close>

theorem id_set_filter_accepts_exited:
  "streamLogsMerged_filter (ex_request [(''id'', ''c1''), (''id'', ''c2''), (''stdout'', [])])
     ex_exited
   \<and> State ex_exited \<noteq> ''running''"
  by (simp add: streamLogsMerged_filter_def ids_lookup_make_ids Values_def ex_request_def
      ex_exited_def)

text \<open>
  Claim C8, amended: the service-label, compose-group and stack-namespace variants accept
  a container exactly when its state is \<open>running\<close> and the variant's own condition
  holds; the single-id variant and the id-set variant accept exactly on id and host, and
  their answer does not change with the container's state.
\<close>

theorem filter_variants:
  "(streamServiceLogs_filter r c =
      (State c = ''running''
       \<and> label c ''com.docker.swarm.service.name'' = URLParam r ''service''))
   \<and> (streamGroupedLogs_filter r c =
      (State c = ''running'' \<and> Group c = URLParam r ''group''))
   \<and> (streamStackLogs_filter r c =
      (State c = ''running''
       \<and> label c ''com.docker.stack.namespace'' = URLParam r ''stack''))
   \<and> (streamContainerLogs_filter r c = (ID c = URLParam r ''id'' \<and> Host c = hostKey r))
   \<and> (streamLogsMerged_filter r c =
      (ID c \<in> set (Values r ''id'') \<and> Host c = hostKey r))
   \<and> streamContainerLogs_filter r (c\<lparr>State := st\<rparr>) = streamContainerLogs_filter r c
   \<and> streamLogsMerged_filter r (c\<lparr>State := st\<rparr>) = streamLogsMerged_filter r c"
  by (simp add: streamServiceLogs_filter_def streamGroupedLogs_filter_def
      streamStackLogs_filter_def streamContainerLogs_filter_def streamLogsMerged_filter_def
      ids_lookup_make_ids label_def)


section \<open>The frames of the merge loop\<close>

lemma on_logs_wire_ok:
  "Marshal_LogEvent h event = Inr buf \<Longrightarrow>
   wire (on_logs h event x) = wire x @ log_frame buf event @ [Flush]"
  by (simp add: on_logs_def log_frame_def Fprint_def do_Flush_def WriteHeader_def Let_def)

lemma on_logs_wire_failed:
  "Marshal_LogEvent h event = Inl err \<Longrightarrow>
   wire (on_logs h event x) =
     wire x
     @ (if 0 <s Timestamp event
        then [Write (''id: '' @ show_int (sint (Timestamp event)) @ nl)] else [])
     @ [Write nl, Flush]"
  by (simp add: on_logs_def Fprint_def do_Flush_def WriteHeader_def log_line_def Let_def)


text \<open>
  The sibling case of the loop, for a lifecycle event: when its serialization fails,
  nothing at all is written.
\<close>

lemma on_events_wire_failed:
  "Marshal_ContainerEvent h event = Inl err \<Longrightarrow> wire (on_events h event x) = wire x"
  by (simp add: on_events_def log_line_def Let_def)

text \<open>
  Claim C4, as stated, fails for a consumed log event that the encoder rejects: the loop
  receives the event, and what it writes has no \<open>data:\<close> line.
\<close>

theorem consumed_event_without_data_line:
  "map_option wire
     (step ex_env_no_json STDOUT (\<lambda>c. True) (Recv_logs 0)
        (ex_session [[Send_logs ex_event1]]))
   = Some [Write (''id: 1700000000'' @ nl), Write nl, Flush]"
proof -
  have m: "Marshal_LogEvent ex_env_no_json ex_event1 = Inl (ex_error ''unsupported value'')"
    by (simp add: ex_env_no_json_def)
  have t: "Timestamp ex_event1 = 1700000000"
    by (simp add: ex_event1_def)
  have ts: "0 <s Timestamp ex_event1"
    "show_int (sint (Timestamp ex_event1)) = ''1700000000''"
    unfolding t by (simp_all add: word_sless_alt show_int_def digit_def)
  show ?thesis
    by (simp add: loop_ready_def ex_session_def on_logs_wire_failed [OF m] ts)
qed

text \<open>
  Claim C4, amended: when the merge loop receives a log event whose JSON serialization
  succeeds with the text \<open>buf\<close>, it writes the line \<open>data: buf\<close>, then the line \<open>id: \<close>
  with the decimal timestamp exactly when the timestamp is greater than 0, then an empty
  line, and flushes right after these writes.
\<close>

theorem log_event_frame:
  assumes "loop_ready s" and "i < length (tasks s)"
    and "tasks s ! i = Send_logs event # rest"
    and "Marshal_LogEvent h event = Inr buf"
  shows "\<exists>s'. step h stdTypes filter_fn (Recv_logs i) s = Some s'
           \<and> wire s' = wire s
                @ [Write (''data: '' @ buf @ nl)]
                @ (if 0 <s Timestamp event
                   then [Write (''id: '' @ show_int (sint (Timestamp event)) @ nl)]
                   else [])
                @ [Write nl]
                @ [Flush]"
  using assms by (simp add: on_logs_wire_ok log_frame_def)

theorem log_event_frame_witness:
  "\<exists>s'. step (ex_env ex_range None) STDOUT (\<lambda>c. True) (Recv_logs 0)
           (ex_session [[Send_logs ex_event1]]) = Some s'
      \<and> wire s' = [Write (''data: c1: hello'' @ nl), Write (''id: 1700000000'' @ nl),
                    Write nl, Flush]"
  using log_event_frame [of "ex_session [[Send_logs ex_event1]]" 0 ex_event1 "[]"
      "ex_env ex_range None" "''c1: hello''" STDOUT "\<lambda>c. True"]
  by (simp add: ex_session_def loop_ready_def ex_env_def ex_event1_def show_int_def
      digit_def word_sless_alt)

text \<open>
  Claim C5 says that a log event whose serialization fails leaves no part of its frame on
  the transport. The code of \<^verbatim>\<open>case event := <-logs\<close> guards only the \<open>data:\<close> line:
  for an event with timestamp 5 that the encoder rejects it logs the error and still writes
  the \<open>id:\<close> line and the empty line, and flushes them.
\<close>

theorem failed_encoding_still_writes:
  "wire (on_logs ex_env_no_json
           \<lparr>Timestamp = 5, ContainerID = ''c1'', Message = ''hello''\<rparr> (fresh True))
     = [Write (''id: 5'' @ nl), Write nl, Flush]
   \<and> logged (on_logs ex_env_no_json
           \<lparr>Timestamp = 5, ContainerID = ''c1'', Message = ''hello''\<rparr> (fresh True))
     = [(Err, ''json encoding error while streaming unsupported value'')]"
  by (simp add: on_logs_def Fprint_def do_Flush_def WriteHeader_def log_line_def Let_def
      ex_env_no_json_def ex_env_def ex_error_def fresh_def show_int_def digit_def
      word_sless_alt)


section \<open>The ring buffer\<close>

lemma Size_Push: "Size (Push x b) = Size b"
  by (simp add: Push_def)

lemma Size_fold_Push: "Size (fold Push xs b) = Size b"
  by (induction xs arbitrary: b) (simp_all add: Size_Push)

lemma held_Push:
  "held (Push x b) =
     (if length (held b) < Size b then held b @ [x] else drop 1 (held b) @ [x])"
  by (simp add: Push_def)

text \<open>
  After any pushes into a new buffer of capacity \<open>C > 0\<close>, the snapshot is the last
  \<open>C\<close> pushed items in push order (testable property 1 of the specification).
\<close>

lemma Data_fold_Push:
  assumes "0 < C"
  shows "Data (fold Push xs (NewRingBuffer C)) = most_recent C xs"
proof (induction xs rule: rev_induct)
  case Nil
  show ?case by (simp add: Data_def NewRingBuffer_def most_recent_def)
next
  case (snoc x xs)
  define b where "b = fold Push xs (NewRingBuffer C :: 'a RingBuffer)"
  have sz: "Size b = C" by (simp add: b_def NewRingBuffer_def Size_fold_Push)
  have h: "held b = drop (length xs - C) xs"
    using snoc by (simp add: b_def Data_def most_recent_def)
  have "held (Push x b) = drop (Suc (length xs) - C) (xs @ [x])"
  proof (cases "length xs < C")
    case True
    then show ?thesis using h sz by (simp add: held_Push)
  next
    case False
    then have "Suc (length xs) - C = Suc (length xs - C)" using assms by arith
    then show ?thesis using False h sz assms by (simp add: held_Push)
  qed
  then show ?case by (simp add: b_def Data_def most_recent_def)
qed

lemma length_most_recent: "length (most_recent n xs) = min (length xs) n"
  by (simp add: most_recent_def)

section \<open>Range export\<close>

lemma wire_fold_encode:
  "wire (fold (encode_event h) evs x) = wire x @ ndjson h evs"
  by (induction evs arbitrary: x)
     (auto simp: ndjson_def encode_event_def log_line_def Fprint_def WriteHeader_def
       split: sum.splits)

lemma logged_fold_encode:
  "logged (fold (encode_event h) evs x) = logged x @ encoding_errors h evs"
  by (induction evs arbitrary: x)
     (auto simp: encoding_errors_def encode_event_def log_line_def Fprint_def
       WriteHeader_def split: sum.splits)

lemma calls_fold_encode: "calls (fold (encode_event h) evs x) = calls x"
  by (induction evs arbitrary: x)
     (auto simp: encode_event_def log_line_def Fprint_def WriteHeader_def split: sum.splits)

lemma Header_fold_encode: "Header (fold (encode_event h) evs x) = Header x"
  by (induction evs arbitrary: x)
     (auto simp: encode_event_def log_line_def Fprint_def WriteHeader_def split: sum.splits)

lemma status_fold_encode:
  "status (fold (encode_event h) evs x) =
     (if status x = None \<and> ndjson h evs \<noteq> [] then Some 200 else status x)"
  by (induction evs arbitrary: x)
     (auto simp: ndjson_def encode_event_def log_line_def Fprint_def WriteHeader_def
       split: sum.splits)

lemma ndjson_all_encoded:
  "(\<And>e. e \<in> set evs \<Longrightarrow> Marshal_LogEvent h e = Inr (json e)) \<Longrightarrow>
   ndjson h evs = map (\<lambda>e. Write (json e @ nl)) evs"
  by (induction evs) (simp_all add: ndjson_def)

text \<open>
  The run of \<^verbatim>\<open>fetchLogsBetweenDates\<close> for a request that selects a stream type and
  names a known container, when the events channel is closed after delivering \<open>evs\<close>.
\<close>

lemma fetch_closed_channel:
  assumes "stdTypes_of r \<noteq> 0"
    and "FindContainer h (hostKey r) (URLParam r ''id'') = Inr cs"
    and "LogsBetweenDates cs (parse_or_zero h (Get r ''from''))
           (parse_or_zero h (Get r ''to'')) (stdTypes_of r) = (Delivers evs True, err)"
  shows "fetchLogsBetweenDates h r x0 =
     Some (fold (encode_event h) (most_recent 500 evs)
       ((case err of
           None \<Rightarrow> (\<lambda>x. x)
         | Some e \<Rightarrow> log_line Err (''error while streaming logs '' @ Error e))
        (record_call
          (Call_LogsBetweenDates (parse_or_zero h (Get r ''from''))
             (parse_or_zero h (Get r ''to'')) (stdTypes_of r))
          (record_call (Call_FindContainer (hostKey r) (URLParam r ''id''))
            (Header_Set ''Content-Type'' ''application/x-jsonl; charset=UTF-8'' x0)))))"
  using assms
  by (cases err) (simp_all add: fetchLogsBetweenDates_def Let_def Data_fold_Push)

lemma fetch_closed_channel_fields:
  assumes "stdTypes_of r \<noteq> 0"
    and "FindContainer h (hostKey r) (URLParam r ''id'') = Inr cs"
    and "LogsBetweenDates cs (parse_or_zero h (Get r ''from''))
           (parse_or_zero h (Get r ''to'')) (stdTypes_of r) = (Delivers evs True, err)"
  shows "\<exists>x. fetchLogsBetweenDates h r x0 = Some x
    \<and> wire x = wire x0 @ ndjson h (most_recent 500 evs)
    \<and> status x =
        (if status x0 = None \<and> ndjson h (most_recent 500 evs) \<noteq> [] then Some 200
         else status x0)
    \<and> Header x = (Header x0)(''Content-Type'' \<mapsto> [''application/x-jsonl; charset=UTF-8''])
    \<and> calls x = calls x0 @
        [Call_FindContainer (hostKey r) (URLParam r ''id''),
         Call_LogsBetweenDates (parse_or_zero h (Get r ''from''))
           (parse_or_zero h (Get r ''to'')) (stdTypes_of r)]
    \<and> logged x = logged x0
        @ (case err of
             None \<Rightarrow> []
           | Some e \<Rightarrow> [(Err, ''error while streaming logs '' @ Error e)])
        @ encoding_errors h (most_recent 500 evs)"
  unfolding fetch_closed_channel [OF assms]
  by (cases err)
     (simp_all add: wire_fold_encode status_fold_encode Header_fold_encode calls_fold_encode
       logged_fold_encode log_line_def record_call_def Header_Set_def)


lemma stdTypes_of_stdout: "stdTypes_of (ex_request [(''stdout'', [])]) = STDOUT"
  by (simp add: stdTypes_of_def Has_def ex_request_def)

lemma STDOUT_not_0: "STDOUT \<noteq> 0"
  by (simp add: STDOUT_def)

text \<open>
  Claim C1, as stated, fails when the encoder rejects an event: the range query matches
  two events, the response is a success and its body holds none of them.
\<close>

theorem range_export_encoder_rejects:
  "fst (LogsBetweenDates (ex_service ex_exited ex_range None) zero_Time zero_Time STDOUT)
     = Delivers [ex_event1, ex_event2] True
   \<and> map_option wire
        (fetchLogsBetweenDates ex_env_no_json (ex_request [(''stdout'', [])]) (fresh True))
     = Some []"
proof -
  define rq where "rq = ex_request [(''stdout'', [])]"
  have st: "stdTypes_of rq \<noteq> 0"
    by (simp add: rq_def stdTypes_of_stdout STDOUT_not_0)
  have find: "FindContainer ex_env_no_json (hostKey rq) (URLParam rq ''id'')
      = Inr (ex_service ex_exited ex_range None)"
    by (simp add: ex_env_no_json_def rq_def ex_env_def ex_request_def URLParam_def)
  have lbd: "LogsBetweenDates (ex_service ex_exited ex_range None)
      (parse_or_zero ex_env_no_json (Get rq ''from''))
      (parse_or_zero ex_env_no_json (Get rq ''to'')) (stdTypes_of rq)
      = (Delivers [ex_event1, ex_event2] True, None)"
    by (simp add: ex_service_def ex_range_def)
  have nd: "ndjson ex_env_no_json (most_recent 500 [ex_event1, ex_event2]) = []"
    by (simp add: ndjson_def most_recent_def ex_env_no_json_def)
  from fetch_closed_channel_fields [OF st find lbd, of "fresh True"]
  have "map_option wire (fetchLogsBetweenDates ex_env_no_json rq (fresh True)) = Some []"
    unfolding nd by (auto simp: fresh_def)
  then show ?thesis
    by (simp add: rq_def ex_service_def ex_range_def)
qed

text \<open>
  Claim C1, amended: for a range export that selects a stream type and names a known
  container, and whose range matches the \<open>N\<close> events \<open>evs\<close>, the handler returns, the
  status is not an error, and the body is newline-delimited JSON of the \<open>min N 500\<close> most
  recent events in their order, oldest first, leaving out those that the encoder rejects;
  it holds all \<open>min N 500\<close> of them when the encoder rejects none. The earlier events
  leave no trace in the response or in the log.
\<close>

theorem range_export_most_recent:
  assumes "stdTypes_of r \<noteq> 0"
    and "FindContainer h (hostKey r) (URLParam r ''id'') = Inr cs"
    and "LogsBetweenDates cs (parse_or_zero h (Get r ''from''))
           (parse_or_zero h (Get r ''to'')) (stdTypes_of r) = (Delivers evs True, err)"
  shows "\<exists>x. fetchLogsBetweenDates h r x0 = Some x
    \<and> wire x = wire x0 @ ndjson h (most_recent 500 evs)
    \<and> length (most_recent 500 evs) = min (length evs) 500
    \<and> (\<forall>json. (\<forall>e \<in> set (most_recent 500 evs). Marshal_LogEvent h e = Inr (json e))
          \<longrightarrow> wire x = wire x0 @ map (\<lambda>e. Write (json e @ nl)) (most_recent 500 evs))
    \<and> status x =
        (if status x0 = None \<and> ndjson h (most_recent 500 evs) \<noteq> [] then Some 200
         else status x0)
    \<and> logged x = logged x0
        @ (case err of
             None \<Rightarrow> []
           | Some e \<Rightarrow> [(Err, ''error while streaming logs '' @ Error e)])
        @ encoding_errors h (most_recent 500 evs)"
proof -
  from fetch_closed_channel_fields [OF assms, of x0]
  obtain x where x: "fetchLogsBetweenDates h r x0 = Some x"
    "wire x = wire x0 @ ndjson h (most_recent 500 evs)"
    "status x =
        (if status x0 = None \<and> ndjson h (most_recent 500 evs) \<noteq> [] then Some 200
         else status x0)"
    "logged x = logged x0
        @ (case err of
             None \<Rightarrow> []
           | Some e \<Rightarrow> [(Err, ''error while streaming logs '' @ Error e)])
        @ encoding_errors h (most_recent 500 evs)"
    by blast
  have "wire x = wire x0 @ map (\<lambda>e. Write (json e @ nl)) (most_recent 500 evs)"
    if "\<forall>e \<in> set (most_recent 500 evs). Marshal_LogEvent h e = Inr (json e)" for json
    using that x(2) ndjson_all_encoded [of "most_recent 500 evs" h json] by simp
  with x show ?thesis by (simp add: length_most_recent)
qed

theorem range_export_most_recent_witness:
  "\<exists>x. fetchLogsBetweenDates (ex_env ex_busy None) (ex_request [(''stdout'', [])])
          (fresh True) = Some x
     \<and> wire x = replicate 500 (Write (''c1: hello'' @ nl))
     \<and> status x = Some 200 \<and> logged x = []"
proof -
  define rq where "rq = ex_request [(''stdout'', [])]"
  define h where "h = ex_env ex_busy None"
  have st: "stdTypes_of rq \<noteq> 0"
    by (simp add: rq_def stdTypes_of_stdout STDOUT_not_0)
  have find: "FindContainer h (hostKey rq) (URLParam rq ''id'')
      = Inr (ex_service ex_exited ex_busy None)"
    by (simp add: h_def rq_def ex_env_def ex_request_def URLParam_def)
  have lbd: "LogsBetweenDates (ex_service ex_exited ex_busy None)
      (parse_or_zero h (Get rq ''from'')) (parse_or_zero h (Get rq ''to'')) (stdTypes_of rq)
      = (Delivers (replicate 100 ex_event2 @ replicate 500 ex_event1) True, None)"
    by (simp add: ex_service_def ex_busy_def)
  have kept: "most_recent 500 (replicate 100 ex_event2 @ replicate 500 ex_event1)
      = replicate 500 ex_event1"
    by (simp add: most_recent_def)
  have nd: "ndjson h (replicate 500 ex_event1) = replicate 500 (Write (''c1: hello'' @ nl))"
    by (simp add: ndjson_def h_def ex_env_def ex_event1_def map_replicate_const
        flip: replicate_append_same)
  have enc: "encoding_errors h (replicate 500 ex_event1) = []"
    by (simp add: encoding_errors_def h_def ex_env_def)
  from range_export_most_recent [OF st find lbd, of "fresh True"]
  obtain x where "fetchLogsBetweenDates h rq (fresh True) = Some x"
    and "wire x = wire (fresh True) @ ndjson h (replicate 500 ex_event1)"
    and "status x = (if status (fresh True) = None \<and> ndjson h (replicate 500 ex_event1) \<noteq> []
          then Some 200 else status (fresh True))"
    and "logged x = logged (fresh True) @ [] @ encoding_errors h (replicate 500 ex_event1)"
    unfolding kept by auto
  then show ?thesis
    unfolding nd enc by (simp add: fresh_def h_def rq_def)
qed


lemma parse_or_zero_failed: "isl (Parse h s) \<Longrightarrow> parse_or_zero h s = zero_Time"
  by (cases "Parse h s") (simp_all add: parse_or_zero_def)

text \<open>
  Claim C3, as stated, fails: a range export whose \<open>from\<close> is not a timestamp and whose
  \<open>to\<close> is missing is not refused. The handler looks the container up, queries the logs
  between the zero time and the zero time, and answers with status 200.
\<close>

theorem range_export_bad_timestamps_accepted:
  "isl (Parse (ex_env ex_range None)
          (Get (ex_request [(''stdout'', []), (''from'', ''yesterday'')]) ''from''))
   \<and> isl (Parse (ex_env ex_range None)
          (Get (ex_request [(''stdout'', []), (''from'', ''yesterday'')]) ''to''))
   \<and> map_option calls
        (fetchLogsBetweenDates (ex_env ex_range None)
           (ex_request [(''stdout'', []), (''from'', ''yesterday'')]) (fresh True))
     = Some [Call_FindContainer ''h1'' ''c1'',
             Call_LogsBetweenDates zero_Time zero_Time STDOUT]
   \<and> map_option status
        (fetchLogsBetweenDates (ex_env ex_range None)
           (ex_request [(''stdout'', []), (''from'', ''yesterday'')]) (fresh True))
     = Some (Some 200)"
proof -
  define rq where "rq = ex_request [(''stdout'', []), (''from'', ''yesterday'')]"
  define h where "h = ex_env ex_range None"
  have st: "stdTypes_of rq = STDOUT"
    by (simp add: rq_def stdTypes_of_def Has_def ex_request_def)
  have st0: "stdTypes_of rq \<noteq> 0"
    by (simp add: st STDOUT_not_0)
  have pfrom: "isl (Parse h (Get rq ''from''))" and pto: "isl (Parse h (Get rq ''to''))"
    by (simp_all add: h_def rq_def ex_env_def ex_request_def Get_def Values_def)
  have find: "FindContainer h (hostKey rq) (URLParam rq ''id'')
      = Inr (ex_service ex_exited ex_range None)"
    by (simp add: h_def rq_def ex_env_def ex_request_def URLParam_def)
  have lbd: "LogsBetweenDates (ex_service ex_exited ex_range None)
      (parse_or_zero h (Get rq ''from'')) (parse_or_zero h (Get rq ''to'')) (stdTypes_of rq)
      = (Delivers [ex_event1, ex_event2] True, None)"
    by (simp add: ex_service_def ex_range_def)
  have nd: "ndjson h (most_recent 500 [ex_event1, ex_event2]) \<noteq> []"
    by (simp add: ndjson_def most_recent_def h_def ex_env_def)
  have ids: "hostKey rq = ''h1''" "URLParam rq ''id'' = ''c1''"
    by (simp_all add: rq_def ex_request_def URLParam_def)
  from fetch_closed_channel_fields [OF st0 find lbd, of "fresh True"]
  obtain x where "fetchLogsBetweenDates h rq (fresh True) = Some x"
    and "status x = Some 200"
    and "calls x = [Call_FindContainer ''h1'' ''c1'',
                    Call_LogsBetweenDates zero_Time zero_Time STDOUT]"
    using nd by (auto simp: fresh_def st ids parse_or_zero_failed [OF pfrom]
        parse_or_zero_failed [OF pto])
  then show ?thesis
    using pfrom pto by (simp add: rq_def h_def)
qed

text \<open>
  Claim C3, amended: for a range export whose \<open>from\<close> or \<open>to\<close> is missing or not a valid
  timestamp, the parse error is dropped and the zero time stands for that bound. A
  request that selects a stream type and names a known container is then served as any
  other: the container is looked up, the logs between the two bounds are queried, and the
  events are written.
\<close>

theorem range_export_zero_time_for_bad_timestamp:
  assumes "isl (Parse h (Get r ''from'')) \<or> isl (Parse h (Get r ''to''))"
    and "stdTypes_of r \<noteq> 0"
    and "FindContainer h (hostKey r) (URLParam r ''id'') = Inr cs"
    and "LogsBetweenDates cs
           (if isl (Parse h (Get r ''from'')) then zero_Time else projr (Parse h (Get r ''from'')))
           (if isl (Parse h (Get r ''to'')) then zero_Time else projr (Parse h (Get r ''to'')))
           (stdTypes_of r) = (Delivers evs True, err)"
  shows "\<exists>x. fetchLogsBetweenDates h r x0 = Some x
    \<and> calls x = calls x0 @
        [Call_FindContainer (hostKey r) (URLParam r ''id''),
         Call_LogsBetweenDates
           (if isl (Parse h (Get r ''from'')) then zero_Time else projr (Parse h (Get r ''from'')))
           (if isl (Parse h (Get r ''to'')) then zero_Time else projr (Parse h (Get r ''to'')))
           (stdTypes_of r)]
    \<and> wire x = wire x0 @ ndjson h (most_recent 500 evs)
    \<and> status x =
        (if status x0 = None \<and> ndjson h (most_recent 500 evs) \<noteq> [] then Some 200
         else status x0)"
proof -
  have p: "parse_or_zero h s = (if isl (Parse h s) then zero_Time else projr (Parse h s))"
    for s
    by (cases "Parse h s") (simp_all add: parse_or_zero_def)
  from assms(4) have lbd: "LogsBetweenDates cs (parse_or_zero h (Get r ''from''))
      (parse_or_zero h (Get r ''to'')) (stdTypes_of r) = (Delivers evs True, err)"
    by (simp only: p)
  from fetch_closed_channel_fields [OF assms(2) assms(3) lbd, of x0]
  show ?thesis by (auto simp only: p)
qed

theorem range_export_zero_time_for_bad_timestamp_witness:
  "\<exists>x. fetchLogsBetweenDates (ex_env ex_range None)
          (ex_request [(''stderr'', []), (''to'', ''2024-05-01T10:00:00Z'')]) (fresh True)
        = Some x
     \<and> calls x = [Call_FindContainer ''h1'' ''c1'',
                   Call_LogsBetweenDates zero_Time 100 STDERR]
     \<and> wire x = [Write (''c1: hello'' @ nl), Write (''c1: bye'' @ nl)]
     \<and> status x = Some 200"
proof -
  define rq where "rq = ex_request [(''stderr'', []), (''to'', ''2024-05-01T10:00:00Z'')]"
  define h where "h = ex_env ex_range None"
  have st: "stdTypes_of rq = STDERR"
    by (simp add: rq_def stdTypes_of_def Has_def ex_request_def)
  have st0: "stdTypes_of rq \<noteq> 0"
    by (simp add: st STDERR_def)
  have pfrom: "isl (Parse h (Get rq ''from''))"
    by (simp add: h_def rq_def ex_env_def ex_request_def Get_def Values_def)
  have pto: "Parse h (Get rq ''to'') = Inr 100"
    by (simp add: h_def rq_def ex_env_def ex_request_def Get_def Values_def)
  have find: "FindContainer h (hostKey rq) (URLParam rq ''id'')
      = Inr (ex_service ex_exited ex_range None)"
    by (simp add: h_def rq_def ex_env_def ex_request_def URLParam_def)
  have lbd: "LogsBetweenDates (ex_service ex_exited ex_range None)
      (if isl (Parse h (Get rq ''from'')) then zero_Time else projr (Parse h (Get rq ''from'')))
      (if isl (Parse h (Get rq ''to'')) then zero_Time else projr (Parse h (Get rq ''to'')))
      (stdTypes_of rq)
      = (Delivers [ex_event1, ex_event2] True, None)"
    by (simp add: ex_service_def ex_range_def)
  have nd: "ndjson h (most_recent 500 [ex_event1, ex_event2])
      = [Write (''c1: hello'' @ nl), Write (''c1: bye'' @ nl)]"
    by (simp add: ndjson_def most_recent_def h_def ex_env_def ex_event1_def ex_event2_def)
  have ids: "hostKey rq = ''h1''" "URLParam rq ''id'' = ''c1''"
    by (simp_all add: rq_def ex_request_def URLParam_def)
  from range_export_zero_time_for_bad_timestamp [OF disjI1 [OF pfrom] st0 find lbd,
      of "fresh True"]
  show ?thesis
    unfolding nd by (simp add: fresh_def st ids pfrom pto rq_def [symmetric] h_def [symmetric])
qed


text \<open>
  With the nil channel, or a channel that is never closed, the handler does not return,
  whether or not the fetch reported an error.
\<close>

lemma fetch_open_channel:
  assumes "stdTypes_of r \<noteq> 0"
    and "FindContainer h (hostKey r) (URLParam r ''id'') = Inr cs"
    and "range_chan (fst (LogsBetweenDates cs (parse_or_zero h (Get r ''from''))
           (parse_or_zero h (Get r ''to'')) (stdTypes_of r))) = None"
  shows "fetchLogsBetweenDates h r x0 = None"
proof -
  obtain events err where
    "LogsBetweenDates cs (parse_or_zero h (Get r ''from''))
       (parse_or_zero h (Get r ''to'')) (stdTypes_of r) = (events, err)"
    by (cases "LogsBetweenDates cs (parse_or_zero h (Get r ''from''))
       (parse_or_zero h (Get r ''to'')) (stdTypes_of r)")
  with assms show ?thesis
    by (simp add: fetchLogsBetweenDates_def Let_def)
qed

text \<open>
  Claim C10 says that after a failed fetch the handler logs the error and still produces
  a success response. When the failed fetch hands back the nil channel together with its
  error, the handler logs the error and then waits on that channel for ever: it never
  returns, and no response is produced. The other error paths of the handlers answer with
  \<^verbatim>\<open>http.Error\<close> and return.
\<close>

theorem range_export_failed_fetch_nil_channel:
  "LogsBetweenDates (ex_service ex_exited ex_failed_nil None) zero_Time zero_Time STDOUT
     = (Nil_chan, Some (ex_error ''connection refused''))
   \<and> fetchLogsBetweenDates (ex_env ex_failed_nil None) (ex_request [(''stdout'', [])])
        (fresh True) = None"
proof -
  have "stdTypes_of (ex_request [(''stdout'', [])]) \<noteq> 0"
    by (simp add: stdTypes_of_stdout STDOUT_not_0)
  then show ?thesis
    by (simp add: fetchLogsBetweenDates_def Let_def ex_env_def ex_service_def
        ex_failed_nil_def ex_request_def URLParam_def)
qed

text \<open>
  When the log fetch returns an error together with a channel that is closed after
  delivering the events \<open>evs\<close> (possibly none), the handler only logs the error and still
  answers with success: the content type stays that of the export, the status is not an
  error, and the body holds the 500 most recent of \<open>evs\<close> that the encoder accepts.
  Nothing in the response tells the client of the error.
\<close>

theorem range_export_failed_fetch_closed_channel:
  assumes "stdTypes_of r \<noteq> 0"
    and "FindContainer h (hostKey r) (URLParam r ''id'') = Inr cs"
    and "LogsBetweenDates cs (parse_or_zero h (Get r ''from''))
           (parse_or_zero h (Get r ''to'')) (stdTypes_of r) = (Delivers evs True, Some e)"
  shows "\<exists>x. fetchLogsBetweenDates h r x0 = Some x
    \<and> logged x = logged x0
        @ [(Err, ''error while streaming logs '' @ Error e)]
        @ encoding_errors h (most_recent 500 evs)
    \<and> wire x = wire x0 @ ndjson h (most_recent 500 evs)
    \<and> status x =
        (if status x0 = None \<and> ndjson h (most_recent 500 evs) \<noteq> [] then Some 200
         else status x0)
    \<and> Header x = (Header x0)(''Content-Type'' \<mapsto> [''application/x-jsonl; charset=UTF-8''])"
  using fetch_closed_channel_fields [OF assms, of x0] by auto

theorem range_export_failed_fetch_closed_channel_witness:
  "\<exists>x. fetchLogsBetweenDates (ex_env ex_failed_late None) (ex_request [(''stdout'', [])])
          (fresh True) = Some x
     \<and> logged x = [(Err, ''error while streaming logs connection reset'')]
     \<and> wire x = [Write (''c1: hello'' @ nl)]
     \<and> status x = Some 200
     \<and> Header x = [''Content-Type'' \<mapsto> [''application/x-jsonl; charset=UTF-8'']]"
proof -
  define rq where "rq = ex_request [(''stdout'', [])]"
  define h where "h = ex_env ex_failed_late None"
  have st: "stdTypes_of rq \<noteq> 0"
    by (simp add: rq_def stdTypes_of_stdout STDOUT_not_0)
  have find: "FindContainer h (hostKey rq) (URLParam rq ''id'')
      = Inr (ex_service ex_exited ex_failed_late None)"
    by (simp add: h_def rq_def ex_env_def ex_request_def URLParam_def)
  have lbd: "LogsBetweenDates (ex_service ex_exited ex_failed_late None)
      (parse_or_zero h (Get rq ''from'')) (parse_or_zero h (Get rq ''to'')) (stdTypes_of rq)
      = (Delivers [ex_event1] True, Some (ex_error ''connection reset''))"
    by (simp add: ex_service_def ex_failed_late_def)
  have nd: "ndjson h (most_recent 500 [ex_event1]) = [Write (''c1: hello'' @ nl)]"
    by (simp add: ndjson_def most_recent_def h_def ex_env_def ex_event1_def)
  have enc: "encoding_errors h (most_recent 500 [ex_event1]) = []"
    by (simp add: encoding_errors_def most_recent_def h_def ex_env_def)
  from range_export_failed_fetch_closed_channel [OF st find lbd, of "fresh True"]
  show ?thesis
    unfolding nd enc
    by (simp add: fresh_def ex_error_def rq_def [symmetric] h_def [symmetric])
qed


section \<open>The stream-type check\<close>

lemma http_Error_fields:
  "wire (http_Error msg code x) = wire x @ [Write (msg @ nl)]"
  "calls (http_Error msg code x) = calls x"
  "logged (http_Error msg code x) = logged x"
  "status (http_Error msg code x) = (if status x = None then Some code else status x)"
  "Header (http_Error msg code x) = (Header x)
     (''Content-Length'' := None,
      ''Content-Type'' \<mapsto> [''text/plain; charset=utf-8''],
      ''X-Content-Type-Options'' \<mapsto> [''nosniff''])"
  by (simp_all add: http_Error_def Fprint_def WriteHeader_def Header_Set_def Header_Del_def)

lemma stdTypes_of_none:
  "\<not> Has r ''stdout'' \<Longrightarrow> \<not> Has r ''stderr'' \<Longrightarrow> stdTypes_of r = 0"
  by (simp add: stdTypes_of_def)

lemma stdTypes_of_some: "Has r ''stdout'' \<or> Has r ''stderr'' \<Longrightarrow> stdTypes_of r \<noteq> 0"
  by (auto simp: stdTypes_of_def STDOUT_def STDERR_def Let_def or_eq_0_iff)

text \<open>
  The streaming handlers check the selection first: without \<open>stdout\<close> and \<open>stderr\<close>
  the handler returns the error and nothing else has happened, so no container is listed
  and no producer is started.
\<close>

lemma stream_without_selection:
  assumes "\<not> Has r ''stdout''" and "\<not> Has r ''stderr''"
  shows "streamLogsForContainers h r filter_fn sched x0 =
           Inl (http_Error ''stdout or stderr is required'' StatusBadRequest x0)"
  using assms
  by (simp add: streamLogsForContainers_def before_loop_def stdTypes_of_none)

text \<open>
  The range export checks the selection before the lookup: only its content type was set
  before, and \<^verbatim>\<open>http.Error\<close> replaces it.
\<close>

lemma range_export_without_selection:
  assumes "\<not> Has r ''stdout''" and "\<not> Has r ''stderr''"
  shows "\<exists>x. fetchLogsBetweenDates h r x0 = Some x
           \<and> calls x = calls x0
           \<and> wire x = wire x0 @ [Write (''stdout or stderr is required'' @ nl)]
           \<and> Header x = (Header x0)
                (''Content-Length'' := None,
                 ''Content-Type'' \<mapsto> [''text/plain; charset=utf-8''],
                 ''X-Content-Type-Options'' \<mapsto> [''nosniff''])
           \<and> status x = (if status x0 = None then Some StatusBadRequest else status x0)"
proof -
  have "fetchLogsBetweenDates h r x0 =
      Some (http_Error ''stdout or stderr is required'' StatusBadRequest
        (Header_Set ''Content-Type'' ''application/x-jsonl; charset=UTF-8'' x0))"
    using assms by (simp add: fetchLogsBetweenDates_def stdTypes_of_none Let_def)
  then show ?thesis
    by (simp add: http_Error_fields Header_Set_def fun_upd_twist)
qed

lemma calls_writer_ops:
  "calls (Header_Set k v x) = calls x"
  "calls (Header_Add k v x) = calls x"
  "calls (Fprint s x) = calls x"
  "calls (do_Flush x) = calls x"
  "calls (log_line l s x) = calls x"
  "calls (record_call c x) = calls x @ [c]"
  by (simp_all add: Header_Set_def Header_Add_def Fprint_def do_Flush_def log_line_def
      record_call_def WriteHeader_def)

text \<open>The download looks the container up before it checks the selection.\<close>

lemma download_looks_up_first:
  "\<exists>rest. calls (downloadLogs h r x0)
     = calls x0 @ Call_FindContainer (hostKey r) (URLParam r ''id'') # rest"
  unfolding downloadLogs_def Let_def
  by (simp add: calls_writer_ops http_Error_fields split: sum.splits)

text \<open>
  Claim C2 says that a request without \<open>stdout\<close> and \<open>stderr\<close> is refused before any
  work, with no container lookup and no header beyond the error's. The download of the
  known container \<open>c1\<close> with an empty query does otherwise: the registry is asked for the
  container first, and the refusal with status 400 still carries the download's
  \<open>Content-Disposition\<close> and \<open>Content-Encoding\<close> headers.
\<close>

theorem download_checks_selection_late:
  "calls (downloadLogs (ex_env ex_range None) (ex_request []) (fresh True))
     = [Call_FindContainer ''h1'' ''c1'']
   \<and> status (downloadLogs (ex_env ex_range None) (ex_request []) (fresh True)) = Some 400
   \<and> wire (downloadLogs (ex_env ex_range None) (ex_request []) (fresh True))
     = [Write (''stdout or stderr is required'' @ nl)]
   \<and> Header (downloadLogs (ex_env ex_range None) (ex_request []) (fresh True))
        ''Content-Disposition''
     = Some [''attachment; filename=web-2024-05-01T10-00-00.log'']
   \<and> Header (downloadLogs (ex_env ex_range None) (ex_request []) (fresh True))
        ''Content-Encoding''
     = Some [''gzip'']"
proof -
  have st: "stdTypes_of (ex_request []) = 0"
    by (simp add: stdTypes_of_none Has_def ex_request_def)
  have gz: "Contains (AcceptEncoding (ex_request [])) ''gzip''"
    by (simp add: ex_request_def)
  have find: "FindContainer (ex_env ex_range None) ''h1'' ''c1''
      = Inr (ex_service ex_exited ex_range None)"
    by (simp add: ex_env_def)
  have nm: "Name (Container (ex_service ex_exited ex_range None)) = ''web''"
    by (simp add: ex_service_def ex_exited_def)
  have fm: "Format (ex_env ex_range None) (Now (ex_env ex_range None))
      = ''2024-05-01T10-00-00''"
    by (simp add: ex_env_def)
  have ids: "hostKey (ex_request []) = ''h1''" "URLParam (ex_request []) ''id'' = ''c1''"
    by (simp_all add: ex_request_def URLParam_def)
  show ?thesis
    by (simp add: downloadLogs_def Let_def st gz find nm fm ids http_Error_def Fprint_def
        WriteHeader_def Header_Set_def Header_Del_def record_call_def fresh_def
        StatusBadRequest_def)
qed


section \<open>The producer task\<close>

lemma lifecycle_sends_append:
  "lifecycle_sends (as @ bs) = lifecycle_sends as @ lifecycle_sends bs"
  by (induction as rule: lifecycle_sends.induct) simp_all

lemma lifecycle_sends_logs: "lifecycle_sends (map Send_logs evs) = []"
  by (induction evs) simp_all

text \<open>
  A producer whose registry lookup fails logs the error and ends: it sends nothing.
\<close>

lemma producer_lookup_fails:
  assumes "FindContainer h (Host c) (ID c) = Inl e"
  shows "streamLogs h stdTypes c =
           [P_call (Call_FindContainer (Host c) (ID c)),
            P_log Err (''error while finding container '' @ Error e)]"
  using assms by (simp add: streamLogs_def)

text \<open>
  A task that has come to the end of its list takes no further step, whatever else
  happens in the session: it sends no more log events and is not started again.
\<close>

lemma step_keeps_finished_task:
  assumes "step h stdTypes filter_fn a s = Some s'"
    and "i < length (tasks s)" and "tasks s ! i = []"
  shows "i < length (tasks s') \<and> tasks s' ! i = [] \<and> a \<noteq> Recv_logs i \<and> a \<noteq> Task i"
proof (cases a)
  case (Recv_logs j)
  with assms show ?thesis
    by (cases "i = j")
       (auto simp: on_logs_def Fprint_def do_Flush_def WriteHeader_def log_line_def Let_def
         split: if_splits list.splits p_action.splits sum.splits)
next
  case Recv_ticker
  with assms show ?thesis
    by (auto simp: on_ticker_def Fprint_def do_Flush_def WriteHeader_def split: if_splits)
next
  case (Recv_newContainers c)
  with assms show ?thesis
    by (auto simp: record_call_def nth_append split: if_splits)
next
  case Recv_events
  with assms show ?thesis
    by (auto simp: on_events_def Fprint_def do_Flush_def WriteHeader_def log_line_def Let_def
        split: if_splits list.splits sum.splits)
next
  case Ctx_Done
  with assms show ?thesis
    by (auto simp: log_line_def split: if_splits)
next
  case (Task j)
  with assms show ?thesis
    by (cases "i = j")
       (auto simp: record_call_def log_line_def
         split: if_splits list.splits p_action.splits)
qed

lemma run_keeps_finished_task:
  assumes "run h stdTypes filter_fn sched s = Some s'"
    and "i < length (tasks s)" and "tasks s ! i = []"
  shows "tasks s' ! i = [] \<and> Recv_logs i \<notin> set sched \<and> Task i \<notin> set sched"
  using assms
proof (induction sched arbitrary: s)
  case Nil
  then show ?case by simp
next
  case (Cons a sched)
  from Cons.prems(1) obtain s1 where a: "step h stdTypes filter_fn a s = Some s1"
    and r: "run h stdTypes filter_fn sched s1 = Some s'"
    by (auto split: option.splits)
  from step_keeps_finished_task [OF a Cons.prems(2) Cons.prems(3)]
  have k: "i < length (tasks s1)" "tasks s1 ! i = []" "a \<noteq> Recv_logs i" "a \<noteq> Task i"
    by simp_all
  from Cons.IH [OF r k(1) k(2)] k(3) k(4) show ?case by auto
qed

text \<open>
  A log line of a producer task changes the log and nothing else: the transport, the
  channel \<^verbatim>\<open>events\<close> and the handler's own task are as before.
\<close>

lemma task_log_line_only:
  assumes "i < length (tasks s)" and "tasks s ! i = P_log l m # rest"
  shows "\<exists>s'. step h stdTypes filter_fn (Task i) s = Some s'
           \<and> wire s' = wire s \<and> status s' = status s \<and> events_ch s' = events_ch s
           \<and> exited s' = exited s \<and> blocked s' = blocked s
           \<and> logged s' = logged s @ [(l, m)] \<and> tasks s' = (tasks s)[i := rest]"
  using assms by (simp add: log_line_def)

text \<open>
  The program of a producer whose log stream ends with end-of-stream: the sends of the
  stream's log events, then one send of a \<open>container-stopped\<close> event that carries the id
  and the host of its container. That send is the last action of the program, and the
  only send of a lifecycle event in it. Whether the send is performed depends on the
  channel \<^verbatim>\<open>events\<close>: see the last section.
\<close>

theorem producer_end_of_stream:
  assumes "FindContainer h (Host c) (ID c) = Inr cs"
    and "StreamLogs cs (StartedAt c) stdTypes = (sent, Some e)"
    and "is_EOF e"
  shows "streamLogs h stdTypes c =
           P_call (Call_FindContainer (Host c) (ID c)) # map Send_logs sent
           @ [P_log Debug (''stream closed for container '' @ Name c),
              Send_events \<lparr>ActorID = ID c, EventName = ''container-stopped'',
                           EventHost = Host c\<rparr>]
       \<and> lifecycle_sends (streamLogs h stdTypes c) =
           [\<lparr>ActorID = ID c, EventName = ''container-stopped'', EventHost = Host c\<rparr>]"
proof -
  have shape: "streamLogs h stdTypes c =
           P_call (Call_FindContainer (Host c) (ID c)) # map Send_logs sent
           @ [P_log Debug (''stream closed for container '' @ Name c),
              Send_events \<lparr>ActorID = ID c, EventName = ''container-stopped'',
                           EventHost = Host c\<rparr>]"
    using assms by (simp add: streamLogs_def container_stopped_def)
  show ?thesis
    unfolding shape by (simp add: lifecycle_sends_append lifecycle_sends_logs)
qed

theorem producer_end_of_stream_witness:
  "streamLogs (ex_env ex_range (Some ex_EOF)) STDOUT ex_running =
     [P_call (Call_FindContainer ''h1'' ''c2''),
      Send_logs (ex_event1\<lparr>ContainerID := ''c2''\<rparr>),
      Send_logs (ex_event2\<lparr>ContainerID := ''c2''\<rparr>),
      P_log Debug ''stream closed for container db'',
      Send_events \<lparr>ActorID = ''c2'', EventName = ''container-stopped'',
                   EventHost = ''h1''\<rparr>]
   \<and> lifecycle_sends (streamLogs (ex_env ex_range (Some ex_EOF)) STDOUT ex_running) =
     [\<lparr>ActorID = ''c2'', EventName = ''container-stopped'', EventHost = ''h1''\<rparr>]"
proof -
  have find: "FindContainer (ex_env ex_range (Some ex_EOF)) (Host ex_running) (ID ex_running)
      = Inr (ex_service ex_running ex_range (Some ex_EOF))"
    by (simp add: ex_env_def ex_running_def)
  have str: "StreamLogs (ex_service ex_running ex_range (Some ex_EOF))
      (StartedAt ex_running) STDOUT
      = ([ex_event1\<lparr>ContainerID := ID ex_running\<rparr>,
          ex_event2\<lparr>ContainerID := ID ex_running\<rparr>], Some ex_EOF)"
    by (simp add: ex_service_def)
  have eof: "is_EOF ex_EOF"
    by (simp add: ex_EOF_def)
  from producer_end_of_stream [OF find str eof]
  show ?thesis
    by (simp add: ex_running_def)
qed

text \<open>
  Claim C7: a producer whose log stream ends with an error that is neither
  end-of-stream nor cancellation logs the error and ends. Its sends are the log events
  that the stream produced before the error and nothing else: no lifecycle event, and
  nothing is written to the transport by the task itself.
\<close>

theorem producer_other_error:
  assumes "FindContainer h (Host c) (ID c) = Inr cs"
    and "StreamLogs cs (StartedAt c) stdTypes = (sent, Some e)"
    and "\<not> is_EOF e" and "\<not> is_Canceled e"
  shows "streamLogs h stdTypes c =
           P_call (Call_FindContainer (Host c) (ID c)) # map Send_logs sent
           @ [P_log Err (''unknown error while streaming '' @ Error e)]
       \<and> lifecycle_sends (streamLogs h stdTypes c) = []"
proof -
  have shape: "streamLogs h stdTypes c =
           P_call (Call_FindContainer (Host c) (ID c)) # map Send_logs sent
           @ [P_log Err (''unknown error while streaming '' @ Error e)]"
    using assms by (simp add: streamLogs_def)
  show ?thesis
    unfolding shape by (simp add: lifecycle_sends_append lifecycle_sends_logs)
qed

theorem producer_other_error_witness:
  "streamLogs (ex_env ex_range (Some ex_broken)) STDOUT ex_running =
     [P_call (Call_FindContainer ''h1'' ''c2''),
      Send_logs (ex_event1\<lparr>ContainerID := ''c2''\<rparr>),
      Send_logs (ex_event2\<lparr>ContainerID := ''c2''\<rparr>),
      P_log Err ''unknown error while streaming unexpected frame header'']
   \<and> lifecycle_sends (streamLogs (ex_env ex_range (Some ex_broken)) STDOUT ex_running) = []"
proof -
  have find: "FindContainer (ex_env ex_range (Some ex_broken)) (Host ex_running)
      (ID ex_running) = Inr (ex_service ex_running ex_range (Some ex_broken))"
    by (simp add: ex_env_def ex_running_def)
  have str: "StreamLogs (ex_service ex_running ex_range (Some ex_broken))
      (StartedAt ex_running) STDOUT
      = ([ex_event1\<lparr>ContainerID := ID ex_running\<rparr>,
          ex_event2\<lparr>ContainerID := ID ex_running\<rparr>], Some ex_broken)"
    by (simp add: ex_service_def)
  have other: "\<not> is_EOF ex_broken" "\<not> is_Canceled ex_broken"
    by (simp_all add: ex_broken_def ex_error_def)
  from producer_other_error [OF find str other]
  show ?thesis
    by (simp add: ex_running_def ex_broken_def ex_error_def)
qed


section \<open>Lifecycle events in the merge loop\<close>

text \<open>
  While the handler's task is in its \<^verbatim>\<open>select\<close>, a producer's pending send on
  \<^verbatim>\<open>events\<close> completes after the loop has taken at most one event out of the channel.
\<close>

lemma lifecycle_send_completes:
  assumes "loop_ready s" and "i < length (tasks s)"
    and "tasks s ! i = [Send_events ev]" and "length (events_ch s) \<le> events_cap"
  shows "\<exists>sched s'. run h stdTypes filter_fn sched s = Some s'
           \<and> tasks s' ! i = [] \<and> events_ch s' = [ev]"
proof (cases "events_ch s")
  case Nil
  with assms have "run h stdTypes filter_fn [Task i] s
      = Some (s\<lparr>events_ch := [ev], tasks := (tasks s)[i := []]\<rparr>)"
    by (simp add: events_cap_def)
  with assms(2) show ?thesis by (intro exI [of _ "[Task i]"]) simp
next
  case (Cons e rest)
  with assms(4) have rest: "rest = []" by (simp add: events_cap_def)
  define s1 where "s1 = on_events h e (s\<lparr>events_ch := []\<rparr>)"
  have s1: "events_ch s1 = []" "tasks s1 = tasks s"
    by (simp_all add: s1_def on_events_def log_line_def Fprint_def do_Flush_def
        WriteHeader_def Let_def split: sum.splits)
  have "step h stdTypes filter_fn Recv_events s = Some s1"
    using assms(1) Cons rest by (simp add: s1_def)
  moreover have "step h stdTypes filter_fn (Task i) s1
      = Some (s1\<lparr>events_ch := [ev], tasks := (tasks s1)[i := []]\<rparr>)"
    using assms(2,3) s1 by (simp add: events_cap_def)
  ultimately have "run h stdTypes filter_fn [Recv_events, Task i] s
      = Some (s1\<lparr>events_ch := [ev], tasks := (tasks s1)[i := []]\<rparr>)"
    by simp
  with assms(2) s1 show ?thesis by (intro exI [of _ "[Recv_events, Task i]"]) simp
qed

text \<open>
  A new container that arrives while \<^verbatim>\<open>events\<close> is full leaves the handler's task
  waiting in its own send: from then on no case of the \<^verbatim>\<open>select\<close> is taken.
\<close>

lemma new_container_on_full_channel:
  assumes "loop_ready s" and "filter_fn c" and "length (events_ch s) = events_cap"
  shows "step h stdTypes filter_fn (Recv_newContainers c) s = Some (s\<lparr>blocked := True\<rparr>)"
  using assms by simp

lemma blocked_loop_takes_no_case:
  assumes "blocked s"
  shows "step h stdTypes filter_fn (Recv_logs i) s = None"
    and "step h stdTypes filter_fn Recv_ticker s = None"
    and "step h stdTypes filter_fn (Recv_newContainers c) s = None"
    and "step h stdTypes filter_fn Recv_events s = None"
    and "step h stdTypes filter_fn Ctx_Done s = None"
  using assms by (simp_all add: loop_ready_def)





section \<open>A producer at the end of its stream in a session\<close>

text \<open>
  A send on \<^verbatim>\<open>events\<close> that finds the channel full, while the handler's task is no
  longer in its \<^verbatim>\<open>select\<close>, waits for ever: whatever happens next, the channel stays
  as it is, nothing is written, and the send is still pending.
\<close>

lemma step_waiting_send:
  assumes "step h stdTypes filter_fn a s = Some s'"
    and "\<not> loop_ready s" and "events_cap \<le> length (events_ch s)"
    and "i < length (tasks s)" and "tasks s ! i = Send_events ev # rest"
  shows "\<not> loop_ready s' \<and> events_ch s' = events_ch s \<and> wire s' = wire s
         \<and> i < length (tasks s') \<and> tasks s' ! i = Send_events ev # rest"
proof (cases a)
  case (Task j)
  with assms show ?thesis
    by (cases "i = j")
       (auto simp: record_call_def log_line_def loop_ready_def
         split: if_splits list.splits p_action.splits)
qed (use assms in \<open>auto split: if_splits\<close>)

lemma run_waiting_send:
  assumes "run h stdTypes filter_fn sched s = Some s'"
    and "\<not> loop_ready s" and "events_cap \<le> length (events_ch s)"
    and "i < length (tasks s)" and "tasks s ! i = Send_events ev # rest"
  shows "events_ch s' = events_ch s \<and> wire s' = wire s
         \<and> tasks s' ! i = Send_events ev # rest"
  using assms
proof (induction sched arbitrary: s)
  case Nil
  then show ?case by simp
next
  case (Cons a sched)
  from Cons.prems(1) obtain s1 where a: "step h stdTypes filter_fn a s = Some s1"
    and r: "run h stdTypes filter_fn sched s1 = Some s'"
    by (auto split: option.splits)
  from step_waiting_send [OF a Cons.prems(2-5)]
  have k: "\<not> loop_ready s1" "events_ch s1 = events_ch s" "wire s1 = wire s"
    "i < length (tasks s1)" "tasks s1 ! i = Send_events ev # rest"
    by simp_all
  from Cons.IH [OF r k(1) _ k(4) k(5)] Cons.prems(3) k(2) k(3) show ?case by simp
qed

text \<open>
  Claim C6 says that every producer whose log stream ends with end-of-stream emits
  exactly one \<open>container-stopped\<close> event and that its task then exits. In the session
  below, on the ids \<open>c1\<close> and \<open>c2\<close>, the producer of \<open>c1\<close> has delivered its log events
  and reached the end of its stream, but its send of \<open>container-stopped\<close> is never
  performed: \<^verbatim>\<open>events\<close> still holds the \<open>container-started\<close> event of \<open>c2\<close>, and the
  handler's task, the only receiver, waits in its own send of line 250 for the restarted
  \<open>c1\<close>. Neither the producer's send nor any case of the \<^verbatim>\<open>select\<close> can happen; by
  \<open>run_waiting_send\<close> this stays so for ever.
\<close>

theorem producer_waits_on_full_channel:
  "(case streamLogsMerged (ex_env ex_range (Some ex_EOF))
           (ex_request [(''id'', ''c1''), (''id'', ''c2''), (''stdout'', [])])
           ex_restart (fresh True) of
      Inr (Some s) \<Rightarrow>
        tasks s ! 0 = [Send_events \<lparr>ActorID = ''c1'', EventName = ''container-stopped'',
                                     EventHost = ''h1''\<rparr>]
        \<and> events_ch s = [\<lparr>ActorID = ''c2'', EventName = ''container-started'',
                            EventHost = ''h1''\<rparr>]
        \<and> blocked s
        \<and> step (ex_env ex_range (Some ex_EOF)) STDOUT
              (streamLogsMerged_filter
                 (ex_request [(''id'', ''c1''), (''id'', ''c2''), (''stdout'', [])]))
              (Task 0) s = None
        \<and> step (ex_env ex_range (Some ex_EOF)) STDOUT
              (streamLogsMerged_filter
                 (ex_request [(''id'', ''c1''), (''id'', ''c2''), (''stdout'', [])]))
              Recv_events s = None
        \<and> step (ex_env ex_range (Some ex_EOF)) STDOUT
              (streamLogsMerged_filter
                 (ex_request [(''id'', ''c1''), (''id'', ''c2''), (''stdout'', [])]))
              Ctx_Done s = None
    | _ \<Rightarrow> False)"
proof -
  define rq where "rq = ex_request [(''id'', ''c1''), (''id'', ''c2''), (''stdout'', [])]"
  define h where "h = ex_env ex_range (Some ex_EOF)"
  define f where "f = streamLogsMerged_filter rq"
  define c1 where "c1 = ex_exited\<lparr>State := ''running''\<rparr>"
  have st: "stdTypes_of rq = STDOUT"
    by (simp add: rq_def stdTypes_of_def Has_def ex_request_def)
  have has: "Has rq ''id''"
    by (simp add: rq_def Has_def ex_request_def)
  have flt: "f ex_exited" "f ex_running" "f c1"
    by (simp_all add: f_def c1_def streamLogsMerged_filter_def ids_lookup_make_ids rq_def
        ex_request_def Values_def ex_exited_def ex_running_def)
  have lst: "ListAllContainersFiltered h f = ([ex_exited], [])"
    using flt by (simp add: h_def ex_env_def)
  have prog0: "streamLogs h STDOUT ex_exited =
     [P_call (Call_FindContainer ''h1'' ''c1''),
      Send_logs (ex_event1\<lparr>ContainerID := ''c1''\<rparr>),
      Send_logs (ex_event2\<lparr>ContainerID := ''c1''\<rparr>),
      P_log Debug ''stream closed for container web'',
      Send_events \<lparr>ActorID = ''c1'', EventName = ''container-stopped'',
                   EventHost = ''h1''\<rparr>]"
    by (simp add: streamLogs_def h_def ex_env_def ex_service_def ex_exited_def ex_EOF_def
        container_stopped_def)
  obtain s0 where b: "before_loop h rq f (fresh True) = Inr s0"
    and s0: "events_ch s0 = []" "tasks s0 = [streamLogs h STDOUT ex_exited]"
      "\<not> exited s0" "\<not> blocked s0"
    by (simp add: before_loop_def st STDOUT_not_0 lst Let_def fresh_def)
  define p1 where "p1 = streamLogs h STDOUT ex_running"
  have started: "container_started ex_running
      = \<lparr>ActorID = ''c2'', EventName = ''container-started'', EventHost = ''h1''\<rparr>"
    by (simp add: container_started_def ex_running_def)
  have keep: "events_ch (on_logs h e x) = events_ch x" "tasks (on_logs h e x) = tasks x"
    "exited (on_logs h e x) = exited x" "blocked (on_logs h e x) = blocked x"
    for e and x :: Session
    by (simp_all add: on_logs_def Fprint_def do_Flush_def WriteHeader_def log_line_def
        Let_def split: sum.splits)
  obtain s where r: "run h STDOUT f ex_restart s0 = Some s"
    and s: "tasks s = [[Send_events \<lparr>ActorID = ''c1'', EventName = ''container-stopped'',
                                     EventHost = ''h1''\<rparr>], p1]"
      "events_ch s = [\<lparr>ActorID = ''c2'', EventName = ''container-started'',
                            EventHost = ''h1''\<rparr>]"
      "blocked s" "\<not> exited s"
    using s0 flt
    by (simp add: ex_restart_def prog0 loop_ready_def events_cap_def keep record_call_def
        log_line_def started p1_def c1_def [symmetric])
  have "step h STDOUT f (Task 0) s = None" "step h STDOUT f Recv_events s = None"
    "step h STDOUT f Ctx_Done s = None"
    using s by (simp_all add: loop_ready_def events_cap_def)
  with r s b show ?thesis
    by (simp add: streamLogsMerged_def streamLogsForContainers_def has st
        rq_def [symmetric] h_def [symmetric] f_def [symmetric])
qed

end
